theory Spec2Isabelle
  imports Main
begin

section \<open>JavaScript values\<close>

text \<open>
  The preset code of \<^verbatim>\<open>src/scripts/prepare/bundle.ts\<close> works on untyped JavaScript values
  (\<^verbatim>\<open>any\<close>): specifiers, module contents, options and configurations. They are modelled by
  one datatype. An object is the finite map of its own properties (the order in which keys
  are enumerated is not part of the model, and no claim speaks of it); a function is a
  reference \<open>JFun f\<close> into an environment of functions that the operations take as a
  parameter: \<open>Fn i\<close> is a function that a module supplies, \<open>Builtin k\<close> the function that
  \<^verbatim>\<open>Object.prototype\<close> holds under the key \<open>k\<close>. Numbers are integers plus \<open>NaN\<close>, which
  is all that truthiness looks at.
\<close>

datatype fref = Fn nat | Builtin string

datatype jv =
    JUndefined
  | JNull
  | JBool bool
  | JNum int
  | JNaN
  | JStr string
  | JArr "jv list"
  | JObj "string \<Rightarrow> jv option"
  | JFun fref

text \<open>What JavaScript throws: a \<^verbatim>\<open>TypeError\<close> of the runtime, the \<^verbatim>\<open>Error\<close> of
  \<^verbatim>\<open>loadPreset\<close> (\<^verbatim>\<open>${input} is not a valid preset\<close>), or whatever a collaborator or a
  user-supplied function throws.\<close>

datatype error = TypeError | NotValidPreset jv | Thrown jv

text \<open>\<^verbatim>\<open>!!val\<close>: the falsy values are \<^verbatim>\<open>undefined\<close>, \<^verbatim>\<open>null\<close>, \<^verbatim>\<open>false\<close>, \<^verbatim>\<open>0\<close>,
  \<^verbatim>\<open>NaN\<close> and the empty string.\<close>

fun truthy :: "jv \<Rightarrow> bool" where
  "truthy JUndefined = False"
| "truthy JNull = False"
| "truthy (JBool b) = b"
| "truthy (JNum n) = (n \<noteq> 0)"
| "truthy JNaN = False"
| "truthy (JStr s) = (s \<noteq> [])"
| "truthy (JArr xs) = True"
| "truthy (JObj m) = True"
| "truthy (JFun f) = True"

text \<open>\<^verbatim>\<open>const isObject = (val) => val != null && typeof val === 'object' && Array.isArray(val) === false\<close>\<close>

fun isObject :: "jv \<Rightarrow> bool" where
  "isObject (JObj m) = True"
| "isObject v = False"

text \<open>\<^verbatim>\<open>const isFunction = (val) => typeof val === 'function'\<close>\<close>

fun isFunction :: "jv \<Rightarrow> bool" where
  "isFunction (JFun f) = True"
| "isFunction v = False"

text \<open>\<^verbatim>\<open>Array.isArray(val)\<close>\<close>

fun isArray :: "jv \<Rightarrow> bool" where
  "isArray (JArr xs) = True"
| "isArray v = False"

text \<open>
  What a plain object inherits from \<^verbatim>\<open>Object.prototype\<close>: its functions, and under
  \<^verbatim>\<open>__proto__\<close> the prototype itself, an object with no enumerable property of its own.
\<close>

definition object_prototype_functions :: "string list" where
  "object_prototype_functions =
     [''constructor'', ''__defineGetter__'', ''__defineSetter__'', ''hasOwnProperty'',
      ''__lookupGetter__'', ''__lookupSetter__'', ''isPrototypeOf'', ''propertyIsEnumerable'',
      ''toString'', ''valueOf'', ''toLocaleString'']"

definition object_prototype :: "string \<Rightarrow> jv option" where
  "object_prototype k =
     (if k \<in> set object_prototype_functions then Some (JFun (Builtin k))
      else if k = ''__proto__'' then Some (JObj Map.empty)
      else None)"

text \<open>\<^verbatim>\<open>obj[key]\<close> on a plain object with the own properties \<open>m\<close>: the own property, else
  the inherited one, else \<^verbatim>\<open>undefined\<close>.\<close>

definition member :: "(string \<Rightarrow> jv option) \<Rightarrow> string \<Rightarrow> jv" where
  "member m k =
     (case m k of
        Some v \<Rightarrow> v
      | None \<Rightarrow> (case object_prototype k of Some v \<Rightarrow> v | None \<Rightarrow> JUndefined))"

text \<open>The decimal name of an array index, and the properties an array or a string
  shows when it is spread into an object literal.\<close>

fun digits :: "nat \<Rightarrow> string" where
  "digits n =
     (if n < 10 then [''0123456789'' ! n]
      else digits (n div 10) @ [''0123456789'' ! (n mod 10)])"

definition index_keys :: "jv list \<Rightarrow> (string \<Rightarrow> jv option)" where
  "index_keys xs = map_of (zip (map digits [0..<length xs]) xs)"

text \<open>\<^verbatim>\<open>{...v}\<close>: the own enumerable properties of \<open>v\<close>; a primitive other than a
  string has none, and neither has a plain function.\<close>

fun spread :: "jv \<Rightarrow> (string \<Rightarrow> jv option)" where
  "spread (JObj m) = m"
| "spread (JArr xs) = index_keys xs"
| "spread (JStr s) = index_keys (map (\<lambda>c. JStr [c]) s)"
| "spread v = Map.empty"

section \<open>The extension applier: \<^verbatim>\<open>applyPresets\<close>\<close>

text \<open>\<^verbatim>\<open>LoadedPreset\<close>: \<^verbatim>\<open>{ name, preset, options }\<close>.\<close>

record loaded =
  name :: jv
  preset :: "string \<Rightarrow> jv option"
  options :: jv

text \<open>
  A promise is modelled by its outcome: \<open>Some (Inr v)\<close> fulfilled with \<open>v\<close>, \<open>Some (Inl e)\<close>
  rejected with \<open>e\<close>, \<open>None\<close> never settled. \<^verbatim>\<open>p.then(f)\<close> runs \<open>f\<close> on the value of
  a fulfilled promise only. A value that has a callable \<^verbatim>\<open>then\<close> is not told apart: a
  promise resolved with \<open>v\<close> counts as fulfilled with \<open>v\<close>.
\<close>

type_synonym promise = "(error + jv) option"

definition then_promise :: "promise \<Rightarrow> (jv \<Rightarrow> promise) \<Rightarrow> promise" where
  "then_promise p f =
     (case p of None \<Rightarrow> None | Some (Inl e) \<Rightarrow> Some (Inl e) | Some (Inr v) \<Rightarrow> f v)"

text \<open>
  The values of \<^verbatim>\<open>combinedOptions\<close>: a plain value copied from the options, the list of
  loaded presets (\<^verbatim>\<open>presetsList\<close>), or the object \<^verbatim>\<open>{ apply }\<close> whose \<^verbatim>\<open>apply\<close> is the
  closure \<^verbatim>\<open>(ext, c, a = {}) => applyPresets(presets, ext, c, a, storybookOptions)\<close>.
\<close>

datatype cov = Plain jv | PresetsList "loaded list" | PresetsApply

text \<open>
  \<^verbatim>\<open>{ ...storybookOptions, ...args, ...options, presetsList: presets, presets: { apply } }\<close>
\<close>

definition combinedOptions ::
  "(string \<Rightarrow> jv option) \<Rightarrow> jv \<Rightarrow> jv \<Rightarrow> loaded list \<Rightarrow> (string \<Rightarrow> cov option)" where
  "combinedOptions storybookOptions args opts presets =
     (map_option Plain \<circ> (storybookOptions ++ spread args ++ spread opts))
       (''presetsList'' \<mapsto> PresetsList presets, ''presets'' \<mapsto> PresetsApply)"

text \<open>
  What an extension function does when it is called: it returns a value (or a promise
  fulfilled with it), throws (or returns a promise that rejects), or calls
  \<^verbatim>\<open>combinedOptions.presets.apply(ext, c, a)\<close> and goes on with the outcome of that call.
\<close>

datatype action =
    Done jv
  | Fail error
  | CallApply string jv jv "error + jv \<Rightarrow> action"

text \<open>Running an action, given the outcome of every nested \<^verbatim>\<open>apply\<close>.\<close>

primrec run :: "(string \<Rightarrow> jv \<Rightarrow> jv \<Rightarrow> promise) \<Rightarrow> action \<Rightarrow> promise" where
  "run ap (Done v) = Some (Inr v)"
| "run ap (Fail e) = Some (Inl e)"
| "run ap (CallApply ext c a k) = (case ap ext c a of None \<Rightarrow> None | Some r \<Rightarrow> run ap (k r))"

text \<open>The environment of extension functions: \<open>fenv f this newConfig combinedOptions\<close> is
  what the function \<open>JFun f\<close> does on \<^verbatim>\<open>f.call(this, newConfig, combinedOptions)\<close>; this
  holds for the inherited functions \<open>Builtin k\<close> too.\<close>

type_synonym fenv = "fref \<Rightarrow> (string \<Rightarrow> jv option) \<Rightarrow> jv \<Rightarrow> (string \<Rightarrow> cov option) \<Rightarrow> action"

text \<open>
  The merge of a contribution that is not a function into the accumulator:
  \<^verbatim>\<open>
  if (Array.isArray(newConfig) && Array.isArray(change)) return [...newConfig, ...change];
  if (isObject(newConfig) && isObject(change)) return { ...newConfig, ...change };
  return change;
  \<close>
\<close>

fun mergeChange :: "jv \<Rightarrow> jv \<Rightarrow> jv" where
  "mergeChange (JArr newConfig) (JArr change) = JArr (newConfig @ change)"
| "mergeChange (JObj newConfig) (JObj change) = JObj (newConfig ++ change)"
| "mergeChange newConfig change = change"

text \<open>
  The callback of \<^verbatim>\<open>presets.reduce\<close> in \<^verbatim>\<open>applyPresets\<close>: \<open>ap\<close> is the nested
  \<^verbatim>\<open>apply\<close>, \<open>presets\<close> the whole list (it goes into \<^verbatim>\<open>combinedOptions\<close>), \<open>p\<close> the element.
\<close>

definition applyPresets_reducer ::
  "(string \<Rightarrow> jv \<Rightarrow> jv \<Rightarrow> promise) \<Rightarrow> fenv \<Rightarrow> loaded list \<Rightarrow> string \<Rightarrow> jv \<Rightarrow>
   (string \<Rightarrow> jv option) \<Rightarrow> promise \<Rightarrow> loaded \<Rightarrow> promise" where
  "applyPresets_reducer ap fenv presets extension args storybookOptions accumulationPromise p =
     (let change = member (preset p) extension in
      if \<not> truthy change then accumulationPromise
      else
        (case change of
           JFun extensionFn \<Rightarrow>
             then_promise accumulationPromise (\<lambda>newConfig.
               run ap (fenv extensionFn (preset p) newConfig
                 (combinedOptions storybookOptions args (options p) presets)))
         | _ \<Rightarrow>
             then_promise accumulationPromise (\<lambda>newConfig.
               Some (Inr (mergeChange newConfig change)))))"

definition applyPresets_fold ::
  "(string \<Rightarrow> jv \<Rightarrow> jv \<Rightarrow> promise) \<Rightarrow> fenv \<Rightarrow> loaded list \<Rightarrow> string \<Rightarrow> jv \<Rightarrow> jv \<Rightarrow>
   (string \<Rightarrow> jv option) \<Rightarrow> promise" where
  "applyPresets_fold ap fenv presets extension config args storybookOptions =
     (let presetResult = Some (Inr config) in
      if length presets = 0 then presetResult
      else foldl (applyPresets_reducer ap fenv presets extension args storybookOptions)
             presetResult presets)"

text \<open>The default \<^verbatim>\<open>a = {}\<close> of the parameter of \<^verbatim>\<open>apply\<close>.\<close>

definition default_args :: "jv \<Rightarrow> jv" where
  "default_args a = (if a = JUndefined then JObj Map.empty else a)"

text \<open>
  \<^verbatim>\<open>applyPresets(presets, extension, config, args, storybookOptions)\<close>. An extension function
  may call \<^verbatim>\<open>apply\<close> again, also for its own key, so the recursion need not end: the first
  argument bounds how deep calls of \<^verbatim>\<open>apply\<close> may nest, and a call nested deeper than
  that never settles (\<open>None\<close>). The fold over the list itself needs no bound.
\<close>

primrec applyPresets ::
  "nat \<Rightarrow> fenv \<Rightarrow> loaded list \<Rightarrow> string \<Rightarrow> jv \<Rightarrow> jv \<Rightarrow> (string \<Rightarrow> jv option) \<Rightarrow> promise" where
  "applyPresets 0 fenv presets extension config args storybookOptions =
     applyPresets_fold (\<lambda>ext c a. None) fenv presets extension config args storybookOptions"
| "applyPresets (Suc n) fenv presets extension config args storybookOptions =
     applyPresets_fold
       (\<lambda>ext c a. applyPresets n fenv presets ext c (default_args a) storybookOptions)
       fenv presets extension config args storybookOptions"

text \<open>The nested \<^verbatim>\<open>apply\<close> that a call of \<open>applyPresets\<close> with bound \<open>n\<close> hands to the
  extension functions.\<close>

definition nested_apply ::
  "nat \<Rightarrow> fenv \<Rightarrow> loaded list \<Rightarrow> (string \<Rightarrow> jv option) \<Rightarrow> string \<Rightarrow> jv \<Rightarrow> jv \<Rightarrow> promise" where
  "nested_apply n fenv presets storybookOptions =
     (case n of
        0 \<Rightarrow> (\<lambda>ext c a. None)
      | Suc m \<Rightarrow> (\<lambda>ext c a. applyPresets m fenv presets ext c (default_args a) storybookOptions))"

text \<open>\<^verbatim>\<open>getPresets(...).apply\<close>: \<^verbatim>\<open>async (extension, config, args = {}) =>
  applyPresets(loadedPresets, extension, config, args, storybookOptions)\<close>.\<close>

definition getPresets_apply ::
  "nat \<Rightarrow> fenv \<Rightarrow> loaded list \<Rightarrow> (string \<Rightarrow> jv option) \<Rightarrow> string \<Rightarrow> jv \<Rightarrow> jv \<Rightarrow> promise" where
  "getPresets_apply n fenv loadedPresets storybookOptions extension config args =
     applyPresets n fenv loadedPresets extension config (default_args args) storybookOptions"

text \<open>The presets of the examples of the specification.\<close>

definition P1_seq :: loaded where
  "P1_seq = \<lparr>name = JStr ''P1'', preset = [''ext'' \<mapsto> JArr [JNum 1]], options = JObj Map.empty\<rparr>"

definition P2_seq :: loaded where
  "P2_seq = \<lparr>name = JStr ''P2'', preset = [''ext'' \<mapsto> JArr [JNum 2]], options = JObj Map.empty\<rparr>"




definition P_throw :: loaded where
  "P_throw = \<lparr>name = JStr ''Pf'', preset = [''ext'' \<mapsto> JFun (Fn 0)],
     options = JObj [''x'' \<mapsto> JNum 3]\<rparr>"

definition fenv_throw :: fenv where
  "fenv_throw f this newConfig co = Fail (Thrown (JStr ''boom''))"

text \<open>
  Extension functions for the examples: \<open>fenv_read_x\<close> returns the value that
  \<^verbatim>\<open>combinedOptions\<close> holds under the key \<^verbatim>\<open>x\<close>; \<open>fenv_nested\<close> calls the nested
  \<^verbatim>\<open>apply\<close> for the key \<^verbatim>\<open>b\<close> from the seed \<^verbatim>\<open>[]\<close> and returns its outcome.
\<close>

definition fenv_read_x :: fenv where
  "fenv_read_x f this newConfig co =
     (case co ''x'' of Some (Plain v) \<Rightarrow> Done v | _ \<Rightarrow> Fail TypeError)"

definition fenv_nested :: fenv where
  "fenv_nested f this newConfig co =
     CallApply ''b'' (JArr []) JUndefined (\<lambda>r. case r of Inl e \<Rightarrow> Fail e | Inr v \<Rightarrow> Done v)"

definition P_nested :: loaded where
  "P_nested = \<lparr>name = JStr ''Pn'', preset = [''a'' \<mapsto> JFun (Fn 0), ''b'' \<mapsto> JArr [JNum 7]],
     options = JObj Map.empty\<rparr>"

section \<open>The preset loader: \<^verbatim>\<open>loadPreset\<close> and \<^verbatim>\<open>loadPresets\<close>\<close>

text \<open>
  What the loader writes to the logger. A message is kept by what it is built from:
  \<^item> \<^verbatim>\<open>logger.warn(`  Failed to load preset: ${JSON.stringify(input)} on level ${level}`)\<close>,
    whose suffix \<^verbatim>\<open>on level ...\<close> is there only when \<^verbatim>\<open>level > 0\<close>;
  \<^item> \<^verbatim>\<open>logger.error(e)\<close>;
  \<^item> \<^verbatim>\<open>logger.error(`Addon value should end in /manager ... \n${item}`)\<close>;
  \<^item> \<^verbatim>\<open>logger.warn(`Could not resolve addon "${name}", skipping. Is it installed?`)\<close>.
\<close>

datatype log_entry =
    Warn_failed_to_load jv "nat option"
  | Error_logged error
  | Error_addon_value jv
  | Warn_could_not_resolve jv

text \<open>
  The collaborators of the loader, none of them in the source file:
  \<^item> the module loader \<^verbatim>\<open>interopRequireDefault(name)\<close>, which may throw;
  \<^item> the functions that a module exports: \<open>call env f args\<close> is the outcome of calling
    \<open>JFun f\<close>, \<open>fn_name env f\<close> its \<^verbatim>\<open>name\<close> property;
  \<^item> \<^verbatim>\<open>resolveAddonName(configDir, name, options)\<close>, of which the file holds two versions
    (modelled further down), taken here as any function that returns a value or throws;
  \<^item> the three ways in which the loader turns a value into text for a message:
    \<^verbatim>\<open>JSON.stringify(v)\<close>, which calls the \<^verbatim>\<open>toJSON\<close> functions of the value and throws
    where one of them throws (or on a cycle); the template literal \<^verbatim>\<open>`${v}`\<close>, which
    calls the \<^verbatim>\<open>toString\<close> or \<^verbatim>\<open>valueOf\<close> of the value and throws where they throw or
    where the value has no usable one; and the library function \<^verbatim>\<open>dedent\<close>, which
    concatenates the value to its message. The text itself is not looked at below, only
    whether building it throws.
\<close>

record loader_env =
  interopRequireDefault :: "jv \<Rightarrow> error + jv"
  call :: "fref \<Rightarrow> jv list \<Rightarrow> error + jv"
  fn_name :: "fref \<Rightarrow> string"
  resolveAddon :: "jv \<Rightarrow> jv \<Rightarrow> jv \<Rightarrow> error + jv"
  JSON_stringify :: "jv \<Rightarrow> error + string"
  template_string :: "jv \<Rightarrow> error + string"
  dedent :: "jv \<Rightarrow> error + string"

text \<open>Sequencing of computations that may throw.\<close>

definition and_then :: "error + 'a \<Rightarrow> ('a \<Rightarrow> error + 'b) \<Rightarrow> error + 'b" where
  "and_then r f = (case r of Inl e \<Rightarrow> Inl e | Inr v \<Rightarrow> f v)"

text \<open>
  \<^verbatim>\<open>input.key\<close> for the keys the loader reads (\<^verbatim>\<open>name\<close>, \<^verbatim>\<open>options\<close>, \<^verbatim>\<open>type\<close>): reading a
  property of \<^verbatim>\<open>undefined\<close> or \<^verbatim>\<open>null\<close> throws a \<^verbatim>\<open>TypeError\<close>; an array, a string, a
  number and a boolean have none of these keys; a function has its \<^verbatim>\<open>name\<close>.
\<close>

fun get_prop :: "loader_env \<Rightarrow> jv \<Rightarrow> string \<Rightarrow> error + jv" where
  "get_prop env JUndefined k = Inl TypeError"
| "get_prop env JNull k = Inl TypeError"
| "get_prop env (JObj m) k = Inr (member m k)"
| "get_prop env (JFun f) k = Inr (if k = ''name'' then JStr (fn_name env f) else JUndefined)"
| "get_prop env v k = Inr JUndefined"

text \<open>
  \<^verbatim>\<open>
  async function getContent(input: any) {
    if (input.type === 'virtual') {
      const { type, name, ...rest } = input;
      return rest;
    }
    const name = input.name ? input.name : input;
    return interopRequireDefault(name);
  }
  \<close>
\<close>

definition getContent :: "loader_env \<Rightarrow> jv \<Rightarrow> error + jv" where
  "getContent env input =
     and_then (get_prop env input ''type'') (\<lambda>ty.
       if ty = JStr ''virtual''
       then Inr (JObj ((spread input)(''type'' := None, ''name'' := None)))
       else and_then (get_prop env input ''name'') (\<lambda>n.
         interopRequireDefault env (if truthy n then n else input)))"

text \<open>\<^verbatim>\<open>[...v]\<close>: the elements of an array, the characters of a string; anything else
  of \<open>jv\<close> is not iterable.\<close>

fun iterate :: "jv \<Rightarrow> error + jv list" where
  "iterate (JArr xs) = Inr xs"
| "iterate (JStr s) = Inr (map (\<lambda>c. JStr [c]) s)"
| "iterate v = Inl TypeError"

text \<open>
  \<^verbatim>\<open>
  function resolvePresetFunction(input, presetOptions, storybookOptions) {
    if (isFunction(input)) return [...input({ ...storybookOptions, ...presetOptions })];
    if (Array.isArray(input)) return [...input];
    return [];
  }
  \<close>
\<close>

definition resolvePresetFunction ::
  "loader_env \<Rightarrow> jv \<Rightarrow> jv \<Rightarrow> (string \<Rightarrow> jv option) \<Rightarrow> error + jv list" where
  "resolvePresetFunction env input presetOptions storybookOptions =
     (case input of
        JFun f \<Rightarrow>
          and_then (call env f [JObj (storybookOptions ++ spread presetOptions)]) iterate
      | JArr xs \<Rightarrow> Inr xs
      | _ \<Rightarrow> Inr [])"

text \<open>
  The function \<^verbatim>\<open>map({ configDir })(item)\<close> of the source, which turns one entry of an
  \<^verbatim>\<open>addons\<close> list into a specifier: what it logs, and what it returns (\<^verbatim>\<open>undefined\<close> when
  the addon is dropped) or throws. It throws where building one of its two messages
  throws:
  \<^verbatim>\<open>
  try { resolved = resolveAddonName(configDir, name, options); }
  catch (err) { logger.error(`Addon value should end in ... \n${item}`); return undefined; }
  if (!resolved) {
    logger.warn(`Could not resolve addon "${name}", skipping. Is it installed?`);
    return undefined;
  }
  return { ...(options ? { options } : {}), ...resolved };
  \<close>
\<close>

definition map_addon ::
  "loader_env \<Rightarrow> (string \<Rightarrow> jv option) \<Rightarrow> jv \<Rightarrow> log_entry list \<times> (error + jv)" where
  "map_addon env storybookOptions item =
     (let opts = (if isObject item
                  then (let v = member (spread item) ''options'' in if truthy v then v else JUndefined)
                  else JUndefined);
          nm = (if isObject item then member (spread item) ''name'' else item)
      in case resolveAddon env (member storybookOptions ''configDir'') nm opts of
           Inl err \<Rightarrow>
             (case template_string env item of
                Inl e \<Rightarrow> ([], Inl e)
              | Inr msg \<Rightarrow> ([Error_addon_value item], Inr JUndefined))
         | Inr resolved \<Rightarrow>
             if \<not> truthy resolved
             then (case template_string env nm of
                     Inl e \<Rightarrow> ([], Inl e)
                   | Inr msg \<Rightarrow> ([Warn_could_not_resolve nm], Inr JUndefined))
             else ([], Inr (JObj ((if truthy opts then [''options'' \<mapsto> opts] else Map.empty)
                                   ++ spread resolved))))"

text \<open>\<^verbatim>\<open>subAddons.map(map(storybookOptions))\<close>: the entries are mapped one after the other,
  and the first throw ends the mapping.\<close>

fun map_addons ::
  "loader_env \<Rightarrow> (string \<Rightarrow> jv option) \<Rightarrow> jv list \<Rightarrow> log_entry list \<times> (error + jv list)" where
  "map_addons env storybookOptions [] = ([], Inr [])"
| "map_addons env storybookOptions (item # items) =
     (case map_addon env storybookOptions item of
        (l, Inl e) \<Rightarrow> (l, Inl e)
      | (l, Inr v) \<Rightarrow>
          (case map_addons env storybookOptions items of
             (ls, Inl e) \<Rightarrow> (l @ ls, Inl e)
           | (ls, Inr vs) \<Rightarrow> (l @ ls, Inr (v # vs))))"

text \<open>
  The outcome of a load that has settled: what was logged, and the loaded presets of a
  fulfilled promise (\<open>Inr\<close>) or the error of a rejected one (\<open>Inl\<close>). A load that never
  settles is \<open>None\<close>.
\<close>

type_synonym load_result = "log_entry list \<times> (error + loaded list)"

text \<open>
  The first statements of the \<^verbatim>\<open>try\<close> block of \<^verbatim>\<open>loadPreset\<close>: the name, the options and
  the effective contents of the specifier.
  \<^verbatim>\<open>
  const name = input.name ? input.name : input;
  const presetOptions = input.options ? input.options : {};
  let contents = await getContent(input);
  if (typeof contents === 'function') contents = contents(storybookOptions, presetOptions);
  \<close>
\<close>

definition loadPreset_contents ::
  "loader_env \<Rightarrow> jv \<Rightarrow> (string \<Rightarrow> jv option) \<Rightarrow> error + (jv \<times> jv \<times> jv)" where
  "loadPreset_contents env input storybookOptions =
     and_then (get_prop env input ''name'') (\<lambda>n.
     and_then (get_prop env input ''options'') (\<lambda>opts.
       let nm = (if truthy n then n else input);
           presetOptions = (if truthy opts then opts else JObj Map.empty)
       in and_then (getContent env input) (\<lambda>contents.
            and_then (case contents of
                        JFun f \<Rightarrow> call env f [JObj storybookOptions, presetOptions]
                      | _ \<Rightarrow> Inr contents)
              (\<lambda>contents. Inr (nm, presetOptions, contents)))))"

text \<open>
  \<^verbatim>\<open>Promise.all\<close> over the loads of the specifiers of one list, followed by the \<^verbatim>\<open>reduce\<close>
  that concatenates the results in the order of the input. As soon as one load rejects,
  the whole rejects, also when another load never settles; when none rejects, the whole
  settles once every load has. Which of several rejections wins depends on the timing of
  the loads, which the model does not have: it takes the leftmost, and nothing below
  depends on the choice. The specifiers of one list may run interleaved; the log of the
  model lists the messages specifier by specifier, and nothing below depends on the order
  of messages of different specifiers.
\<close>

fun join_loads :: "load_result option \<Rightarrow> load_result option \<Rightarrow> load_result option" where
  "join_loads (Some (la, Inl e)) b = Some (la @ (case b of None \<Rightarrow> [] | Some (lb, r) \<Rightarrow> lb), Inl e)"
| "join_loads (Some (la, Inr xs)) None = None"
| "join_loads (Some (la, Inr xs)) (Some (lb, Inl e)) = Some (la @ lb, Inl e)"
| "join_loads (Some (la, Inr xs)) (Some (lb, Inr ys)) = Some (la @ lb, Inr (xs @ ys))"
| "join_loads None (Some (lb, Inl e)) = Some (lb, Inl e)"
| "join_loads None b = None"

fun promise_all :: "load_result option list \<Rightarrow> load_result option" where
  "promise_all [] = Some ([], Inr [])"
| "promise_all (r # rs) = join_loads r (promise_all rs)"

text \<open>
  \<^verbatim>\<open>loadPresets(presets, level, storybookOptions)\<close>, given the function \<open>lp\<close> that loads one
  specifier:
  \<^verbatim>\<open>
  if (!presets || !Array.isArray(presets) || !presets.length) return [];
  return (await Promise.all(presets.map(async (preset) =>
    loadPreset(preset, level, storybookOptions)))).reduce((acc, loaded) => acc.concat(loaded), []);
  \<close>
\<close>

definition loadPresets_with ::
  "(jv \<Rightarrow> nat \<Rightarrow> load_result option) \<Rightarrow> jv \<Rightarrow> nat \<Rightarrow> load_result option" where
  "loadPresets_with lp presets level =
     (case presets of
        JArr ps \<Rightarrow>
          if length ps = 0 then Some ([], Inr [])
          else promise_all (map (\<lambda>p. lp p level) ps)
      | _ \<Rightarrow> Some ([], Inr []))"

text \<open>
  The \<^verbatim>\<open>try\<close> block of \<^verbatim>\<open>loadPreset\<close>, given the function \<open>lps\<close> that loads a nested list:
  \<open>Some (log, Inr loaded)\<close> when the block returns \<open>loaded\<close>, \<open>Some (log, Inl e)\<close> when it
  throws \<open>e\<close> (an \<^verbatim>\<open>await\<close> of a rejected nested load throws its error), \<open>None\<close> when a
  nested load never settles.
  \<^verbatim>\<open>
  if (Array.isArray(contents)) return await loadPresets(contents, level + 1, storybookOptions);
  if (isObject(contents)) {
    const { addons: addonsInput, presets: presetsInput, ...rest } = contents;
    const subPresets = resolvePresetFunction(presetsInput, presetOptions, storybookOptions);
    const subAddons = resolvePresetFunction(addonsInput, presetOptions, storybookOptions);
    return [
      ...(await loadPresets([...subPresets], level + 1, storybookOptions)),
      ...(await loadPresets(
        [...subAddons.map(map(storybookOptions))].filter(Boolean), level + 1, storybookOptions)),
      { name, preset: rest, options: presetOptions },
    ];
  }
  throw new Error(dedent`${input} is not a valid preset`);
  \<close>
\<close>

definition loadPreset_try ::
  "(jv \<Rightarrow> nat \<Rightarrow> load_result option) \<Rightarrow> loader_env \<Rightarrow> jv \<Rightarrow> nat \<Rightarrow>
   (string \<Rightarrow> jv option) \<Rightarrow> load_result option" where
  "loadPreset_try lps env input level storybookOptions =
     (case loadPreset_contents env input storybookOptions of
        Inl e \<Rightarrow> Some ([], Inl e)
      | Inr (nm, presetOptions, contents) \<Rightarrow>
          (case contents of
             JArr subPresets \<Rightarrow> lps (JArr subPresets) (level + 1)
           | JObj m \<Rightarrow>
               (let addonsInput = member m ''addons'';
                    presetsInput = member m ''presets'';
                    rest = m(''addons'' := None, ''presets'' := None)
                in case resolvePresetFunction env presetsInput presetOptions storybookOptions of
                     Inl e \<Rightarrow> Some ([], Inl e)
                   | Inr subPresets \<Rightarrow>
                 (case resolvePresetFunction env addonsInput presetOptions storybookOptions of
                     Inl e \<Rightarrow> Some ([], Inl e)
                   | Inr subAddons \<Rightarrow>
                 (case lps (JArr subPresets) (level + 1) of
                     None \<Rightarrow> None
                   | Some (log1, Inl e) \<Rightarrow> Some (log1, Inl e)
                   | Some (log1, Inr loaded1) \<Rightarrow>
                 (case map_addons env storybookOptions subAddons of
                     (maplog, Inl e) \<Rightarrow> Some (log1 @ maplog, Inl e)
                   | (maplog, Inr mapped) \<Rightarrow>
                 (case lps (JArr (filter truthy mapped)) (level + 1) of
                     None \<Rightarrow> None
                   | Some (log2, Inl e) \<Rightarrow> Some (log1 @ maplog @ log2, Inl e)
                   | Some (log2, Inr loaded2) \<Rightarrow>
                       Some (log1 @ maplog @ log2,
                             Inr (loaded1 @ loaded2 @
                                    [\<lparr>name = nm, preset = rest, options = presetOptions\<rparr>])))))))
           | _ \<Rightarrow>
               (case dedent env input of
                  Inl e \<Rightarrow> Some ([], Inl e)
                | Inr msg \<Rightarrow> Some ([], Inl (NotValidPreset input)))))"

text \<open>
  \<^verbatim>\<open>loadPreset(input, level, storybookOptions)\<close>: the \<^verbatim>\<open>try\<close> block and the \<^verbatim>\<open>catch\<close>.
  \<^verbatim>\<open>
  } catch (e: any) {
    const warning = level > 0
      ? `  Failed to load preset: ${JSON.stringify(input)} on level ${level}`
      : `  Failed to load preset: ${JSON.stringify(input)}`;
    logger.warn(warning);
    logger.error(e);
    return [];
  }
  \<close>
  The \<^verbatim>\<open>catch\<close> builds its warning with \<^verbatim>\<open>JSON.stringify(input)\<close> before it logs anything:
  where that throws, the promise of \<^verbatim>\<open>loadPreset\<close> is rejected. A module may list itself
  among its own presets, so the recursion need not end: the first argument bounds the
  depth of the nesting, and \<open>None\<close> says that the load did not settle within it.
\<close>

primrec loadPreset ::
  "nat \<Rightarrow> loader_env \<Rightarrow> jv \<Rightarrow> nat \<Rightarrow> (string \<Rightarrow> jv option) \<Rightarrow> load_result option" where
  "loadPreset 0 env input level storybookOptions = None"
| "loadPreset (Suc n) env input level storybookOptions =
     (case loadPreset_try
             (loadPresets_with (\<lambda>p l. loadPreset n env p l storybookOptions))
             env input level storybookOptions of
        None \<Rightarrow> None
      | Some (log, Inr loaded) \<Rightarrow> Some (log, Inr loaded)
      | Some (log, Inl e) \<Rightarrow>
          (case JSON_stringify env input of
             Inl e' \<Rightarrow> Some (log, Inl e')
           | Inr msg \<Rightarrow>
               Some (log @ [Warn_failed_to_load input (if level > 0 then Some level else None),
                            Error_logged e], Inr [])))"

definition loadPresets ::
  "nat \<Rightarrow> loader_env \<Rightarrow> jv \<Rightarrow> nat \<Rightarrow> (string \<Rightarrow> jv option) \<Rightarrow> load_result option" where
  "loadPresets n env presets level storybookOptions =
     loadPresets_with (\<lambda>p l. loadPreset n env p l storybookOptions) presets level"

text \<open>
  Environments for the examples. In all of them every module that is not named fails to
  load. In \<open>env_siblings\<close> the module \<^verbatim>\<open>good\<close> exports \<^verbatim>\<open>{ ext: [1] }\<close>, and
  \<^verbatim>\<open>JSON.stringify\<close> throws for an object that has a \<^verbatim>\<open>toJSON\<close> function of its own (the
  function throws); in \<open>env_cyclic\<close> the module \<^verbatim>\<open>A\<close> exports \<^verbatim>\<open>{ presets: ['A'] }\<close>; in
  \<open>env_thrower\<close> the module \<^verbatim>\<open>B\<close> exports \<^verbatim>\<open>{ presets: f, ext: 1 }\<close> where calling \<open>f\<close>
  throws; in \<open>env_nested\<close> the module \<^verbatim>\<open>main\<close> exports
  \<^verbatim>\<open>{ presets: ['inner'], addons: ['addon-a'], ext: 1 }\<close>, \<^verbatim>\<open>inner\<close> exports \<^verbatim>\<open>{ ext: 2 }\<close>
  and \<^verbatim>\<open>addon-a\<close> resolves to a virtual addon with one manager entry. Where nothing else
  is said, building a message does not throw.
\<close>

definition plain_text :: "jv \<Rightarrow> error + string" where
  "plain_text v = Inr []"

definition throwing_toJSON :: "jv \<Rightarrow> error + string" where
  "throwing_toJSON v =
     (case v of
        JObj m \<Rightarrow> (case m ''toJSON'' of Some (JFun f) \<Rightarrow> Inl (Thrown (JStr ''boom'')) | _ \<Rightarrow> Inr [])
      | _ \<Rightarrow> Inr [])"

definition unprintable :: jv where
  "unprintable = JObj [''name'' \<mapsto> JStr ''missing'', ''toJSON'' \<mapsto> JFun (Fn 1)]"

definition env_siblings :: loader_env where
  "env_siblings = \<lparr>
     interopRequireDefault = (\<lambda>nm.
       if nm = JStr ''good'' then Inr (JObj [''ext'' \<mapsto> JArr [JNum 1]])
       else Inl (Thrown (JStr ''Cannot find module''))),
     call = (\<lambda>f args. Inl (Thrown (JStr ''boom''))),
     fn_name = (\<lambda>f. []),
     resolveAddon = (\<lambda>configDir nm opts. Inr JUndefined),
     JSON_stringify = throwing_toJSON,
     template_string = plain_text,
     dedent = plain_text\<rparr>"

definition env_cyclic :: loader_env where
  "env_cyclic = \<lparr>
     interopRequireDefault = (\<lambda>nm.
       if nm = JStr ''A'' then Inr (JObj [''presets'' \<mapsto> JArr [JStr ''A'']])
       else Inl (Thrown (JStr ''Cannot find module''))),
     call = (\<lambda>f args. Inr JUndefined),
     fn_name = (\<lambda>f. []),
     resolveAddon = (\<lambda>configDir nm opts. Inr JUndefined),
     JSON_stringify = plain_text,
     template_string = plain_text,
     dedent = plain_text\<rparr>"

definition env_thrower :: loader_env where
  "env_thrower = \<lparr>
     interopRequireDefault = (\<lambda>nm.
       if nm = JStr ''B'' then Inr (JObj [''presets'' \<mapsto> JFun (Fn 0), ''ext'' \<mapsto> JNum 1])
       else Inl (Thrown (JStr ''Cannot find module''))),
     call = (\<lambda>f args. Inl (Thrown (JStr ''boom''))),
     fn_name = (\<lambda>f. []),
     resolveAddon = (\<lambda>configDir nm opts. Inr JUndefined),
     JSON_stringify = plain_text,
     template_string = plain_text,
     dedent = plain_text\<rparr>"

definition env_nested :: loader_env where
  "env_nested = \<lparr>
     interopRequireDefault = (\<lambda>nm.
       if nm = JStr ''main'' then
         Inr (JObj [''presets'' \<mapsto> JArr [JStr ''inner''], ''addons'' \<mapsto> JArr [JStr ''addon-a''],
                    ''ext'' \<mapsto> JNum 1])
       else if nm = JStr ''inner'' then Inr (JObj [''ext'' \<mapsto> JNum 2])
       else Inl (Thrown (JStr ''Cannot find module''))),
     call = (\<lambda>f args. Inr JUndefined),
     fn_name = (\<lambda>f. []),
     resolveAddon = (\<lambda>configDir nm opts.
       if nm = JStr ''addon-a'' then
         Inr (JObj [''type'' \<mapsto> JStr ''virtual'', ''name'' \<mapsto> JStr ''addon-a'',
                    ''managerEntries'' \<mapsto> JArr [JStr ''/nm/addon-a/manager.js'']])
       else Inr JUndefined),
     JSON_stringify = plain_text,
     template_string = plain_text,
     dedent = plain_text\<rparr>"

section \<open>Addon name resolution: the two versions of \<^verbatim>\<open>resolveAddonName\<close>\<close>

text \<open>
  A resolver returns a path, or \<^verbatim>\<open>false\<close> or \<^verbatim>\<open>undefined\<close> (\<open>None\<close>). The code tests
  these results for truthiness, and \<^verbatim>\<open>a || b\<close> is \<open>a\<close> when \<open>a\<close> is truthy.
\<close>

type_synonym path = "string option"

definition found :: "path \<Rightarrow> bool" where
  "found p = (case p of None \<Rightarrow> False | Some s \<Rightarrow> s \<noteq> [])"

definition or_else :: "path \<Rightarrow> path \<Rightarrow> path" where
  "or_else a b = (if found a then a else b)"

text \<open>The string of a path that was found (it is applied to no other).\<close>

definition str :: "path \<Rightarrow> string" where
  "str p = (case p of None \<Rightarrow> [] | Some s \<Rightarrow> s)"

definition ends_with :: "string \<Rightarrow> string \<Rightarrow> bool" where
  "ends_with s suf = (length suf \<le> length s \<and> drop (length s - length suf) s = suf)"

text \<open>\<^verbatim>\<open>s.includes(sub)\<close> and \<^verbatim>\<open>s.startsWith(pre)\<close>\<close>

definition str_includes :: "string \<Rightarrow> string \<Rightarrow> bool" where
  "str_includes s sub = list_ex (\<lambda>n. take (length sub) (drop n s) = sub) [0..<Suc (length s)]"

definition startsWith :: "string \<Rightarrow> string \<Rightarrow> bool" where
  "startsWith s pre = (take (length pre) s = pre)"

text \<open>
  The two patterns of the first version:
  \<^verbatim>\<open>/\/(manager|register(-panel)?)(\.(js|mjs|ts|tsx|jsx))?$/\<close> and
  \<^verbatim>\<open>/\/(preset)(\.(js|mjs|ts|tsx|jsx))?$/\<close>.
\<close>

definition script_extensions :: "string list" where
  "script_extensions = ['''', ''.js'', ''.mjs'', ''.ts'', ''.tsx'', ''.jsx'']"

definition matches_manager :: "string \<Rightarrow> bool" where
  "matches_manager s =
     list_ex (\<lambda>base. list_ex (\<lambda>ext. ends_with s (''/'' @ base @ ext)) script_extensions)
       [''manager'', ''register'', ''register-panel'']"

definition matches_preset :: "string \<Rightarrow> bool" where
  "matches_preset s = list_ex (\<lambda>ext. ends_with s (''/preset'' @ ext)) script_extensions"

text \<open>What \<^verbatim>\<open>readUpSync\<close> returns: the path of the nearest \<^verbatim>\<open>package.json\<close> and its
  \<^verbatim>\<open>exports\<close> field.\<close>

record pkg =
  pkg_path :: string
  pkg_exports :: jv

text \<open>
  The collaborators of the first version, none of them in the source file:
  \<^verbatim>\<open>browserResolver(input, from)\<close> and \<^verbatim>\<open>nodeResolver(input, from)\<close> (both wrap
  \<^verbatim>\<open>enhanced-resolve\<close> and return \<^verbatim>\<open>false\<close> where it throws; \<open>from\<close> defaults to
  \<^verbatim>\<open>process.cwd()\<close>), \<^verbatim>\<open>safeResolve\<close>, \<^verbatim>\<open>safeResolveFrom\<close>, \<^verbatim>\<open>readUpSync({ cwd })\<close>,
  \<^verbatim>\<open>resolveImports(exports, input, conditions)\<close>, which may throw, and the path functions
  \<^verbatim>\<open>dirname\<close>, \<^verbatim>\<open>join\<close> and \<^verbatim>\<open>slash\<close>.
\<close>

record resolvers =
  browserResolver :: "string \<Rightarrow> string \<Rightarrow> path"
  nodeResolver :: "string \<Rightarrow> string \<Rightarrow> path"
  safeResolve :: "string \<Rightarrow> path"
  safeResolveFrom :: "string \<Rightarrow> string \<Rightarrow> path"
  readUpSync :: "path \<Rightarrow> pkg option"
  resolveImports :: "jv \<Rightarrow> string \<Rightarrow> string list \<Rightarrow> error + string list"
  dirname :: "string \<Rightarrow> string"
  join :: "string \<Rightarrow> string \<Rightarrow> string"
  slash :: "string \<Rightarrow> string"
  cwd :: string

text \<open>
  The per-entry results: the object that \<^verbatim>\<open>safeResolveAll(name, configDir)\<close> returns to
  the second version, and the local constants of the same names of the first version
  (where \<open>fallback\<close> is its constant \<^verbatim>\<open>resolved\<close>).
\<close>

record entries =
  managerFile :: path
  registerFile :: path
  previewFile :: path
  previewFileAbsolute :: path
  presetFile :: path
  fallback :: path

text \<open>An element of \<^verbatim>\<open>previewAnnotations\<close>: the bare path, or \<^verbatim>\<open>{ bare, absolute }\<close>.\<close>

datatype annotation = Bare string | BareAbsolute string string

text \<open>
  The result: \<^verbatim>\<open>{ type: 'virtual', name, managerEntries?, previewAnnotations?, presets? }\<close>,
  where an element of \<^verbatim>\<open>presets\<close> is \<^verbatim>\<open>{ name, options }\<close>, or
  \<^verbatim>\<open>{ type: 'presets', name }\<close>; \<open>None\<close> is \<^verbatim>\<open>undefined\<close>.
\<close>

datatype resolved_addon =
    Virtual string "string list option" "annotation list option" "(string \<times> jv) list option"
  | Presets string

text \<open>
  \<^verbatim>\<open>
  const resolve = name.startsWith('/') ? safeResolve : safeResolveFrom.bind(null, configDir);
  const resolved =
    browserResolver(name, configDir) || nodeResolver(name, configDir) || resolve(name);
  \<close>
\<close>

definition resolved_generic :: "resolvers \<Rightarrow> string \<Rightarrow> string \<Rightarrow> path" where
  "resolved_generic env configDir nm =
     or_else (or_else (browserResolver env nm configDir) (nodeResolver env nm configDir))
       (if startsWith nm ''/'' then safeResolve env nm else safeResolveFrom env configDir nm)"

text \<open>
  \<^verbatim>\<open>
  const resolveFromExportsBrowser = (input) => {
    try {
      const conditions = ['browser', 'import', 'default'];
      const paths = resolveImports(pkg?.packageJson.exports, input, conditions);
      return slash(join(dir, paths[0]));
    } catch (e) { return false; }
  };
  \<close>
  With no path, \<^verbatim>\<open>join(dir, undefined)\<close> throws, and the result is \<^verbatim>\<open>false\<close>.
\<close>

definition resolveFromExportsBrowser :: "resolvers \<Rightarrow> pkg \<Rightarrow> string \<Rightarrow> string \<Rightarrow> path" where
  "resolveFromExportsBrowser env p dir input =
     (case resolveImports env (pkg_exports p) input [''browser'', ''import'', ''default''] of
        Inl e \<Rightarrow> None
      | Inr paths \<Rightarrow>
          (case paths of [] \<Rightarrow> None | first # rest \<Rightarrow> Some (slash env (join env dir first))))"

text \<open>
  \<^verbatim>\<open>
  const resolveFromExportsNode = (input) => {
    try {
      const conditions = ['node', 'require', 'default'];
      const paths = resolveImports(pkg?.packageJson.exports, input, conditions);
      return browserResolver(slash(join(name, paths[0])));
    } catch (e) { return false; }
  };
  \<close>
\<close>

definition resolveFromExportsNode :: "resolvers \<Rightarrow> pkg \<Rightarrow> string \<Rightarrow> string \<Rightarrow> path" where
  "resolveFromExportsNode env p nm input =
     (case resolveImports env (pkg_exports p) input [''node'', ''require'', ''default''] of
        Inl e \<Rightarrow> None
      | Inr paths \<Rightarrow>
          (case paths of
             [] \<Rightarrow> None
           | first # rest \<Rightarrow> browserResolver env (slash env (join env nm first)) (cwd env)))"

text \<open>
  \<^verbatim>\<open>
  const resolveBrowser = (input) =>
    browserResolver(`${name}/${input}`, dir) || resolveFromExportsBrowser(`./${input}`);
  const resolveNode = (input) =>
    nodeResolver(`${name}/${input}`, dir) || resolveFromExportsNode(`./${input}`);
  \<close>
\<close>

definition resolveBrowser :: "resolvers \<Rightarrow> pkg \<Rightarrow> string \<Rightarrow> string \<Rightarrow> string \<Rightarrow> path" where
  "resolveBrowser env p nm dir input =
     or_else (browserResolver env (nm @ ''/'' @ input) dir)
       (resolveFromExportsBrowser env p dir (''./'' @ input))"

definition resolveNode :: "resolvers \<Rightarrow> pkg \<Rightarrow> string \<Rightarrow> string \<Rightarrow> string \<Rightarrow> path" where
  "resolveNode env p nm dir input =
     or_else (nodeResolver env (nm @ ''/'' @ input) dir)
       (resolveFromExportsNode env p nm (''./'' @ input))"

text \<open>
  The probe of the first version inside the package \<open>p\<close>:
  \<^verbatim>\<open>
  const dir = dirname(pkg?.path);
  const managerFile = resolveBrowser('manager');
  const registerFile = resolveBrowser('register') || resolveBrowser('register-panel');
  const previewFile = resolveBrowser('preview');
  const previewFileAbsolute = browserResolver(`${name}/preview`, dir);
  const presetFile = resolveNode(`preset`);
  \<close>
\<close>

definition probe_entries :: "resolvers \<Rightarrow> string \<Rightarrow> string \<Rightarrow> pkg \<Rightarrow> entries" where
  "probe_entries env configDir nm p =
     (let dir = dirname env (pkg_path p) in
      \<lparr>managerFile = resolveBrowser env p nm dir ''manager'',
       registerFile = or_else (resolveBrowser env p nm dir ''register'')
                        (resolveBrowser env p nm dir ''register-panel''),
       previewFile = resolveBrowser env p nm dir ''preview'',
       previewFileAbsolute = browserResolver env (nm @ ''/preview'') dir,
       presetFile = resolveNode env p nm dir ''preset'',
       fallback = resolved_generic env configDir nm\<rparr>)"

text \<open>
  Both versions build \<^verbatim>\<open>managerEntries\<close> alike:
  \<^verbatim>\<open>
  const managerEntries = [];
  if (managerFile) managerEntries.push(managerFile);
  // register file is the old way of registering addons
  if (!managerFile && registerFile && !presetFile) managerEntries.push(registerFile);
  ... (managerEntries.length ? { managerEntries } : {})
  \<close>
\<close>

definition managerEntries_of :: "entries \<Rightarrow> string list option" where
  "managerEntries_of e =
     (let managerEntries =
            (if found (managerFile e) then [str (managerFile e)] else []) @
            (if \<not> found (managerFile e) \<and> found (registerFile e) \<and> \<not> found (presetFile e)
             then [str (registerFile e)] else [])
      in if length managerEntries = 0 then None else Some managerEntries)"

text \<open>\<^verbatim>\<open>...(presetFile ? { presets: [{ name: presetFile, options }] } : {})\<close>\<close>

definition presets_of :: "entries \<Rightarrow> jv \<Rightarrow> (string \<times> jv) list option" where
  "presets_of e opts = (if found (presetFile e) then Some [(str (presetFile e), opts)] else None)"

text \<open>
  The first version (lines 325 to 448):
  \<^verbatim>\<open>
  ...(previewFile
    ? { previewAnnotations: [
          previewFileAbsolute ? { bare: previewFile, absolute: previewFileAbsolute } : previewFile ] }
    : {})
  \<close>
\<close>

definition previewAnnotations_of :: "entries \<Rightarrow> annotation list option" where
  "previewAnnotations_of e =
     (if found (previewFile e)
      then Some [if found (previewFileAbsolute e)
                 then BareAbsolute (str (previewFile e)) (str (previewFileAbsolute e))
                 else Bare (str (previewFile e))]
      else None)"

text \<open>The end of the first version, from \<^verbatim>\<open>if (!(managerFile || previewFile) && presetFile)\<close>
  on.\<close>

definition compose_addon :: "string \<Rightarrow> jv \<Rightarrow> entries \<Rightarrow> resolved_addon option" where
  "compose_addon nm opts e =
     (if \<not> (found (managerFile e) \<or> found (previewFile e)) \<and> found (presetFile e)
      then Some (Presets (str (presetFile e)))
      else if found (managerFile e) \<or> found (registerFile e) \<or> found (previewFile e)
              \<or> found (presetFile e)
      then Some (Virtual nm (managerEntries_of e) (previewAnnotations_of e) (presets_of e opts))
      else if found (fallback e) then Some (Presets (str (fallback e)))
      else None)"

definition resolveAddonName :: "resolvers \<Rightarrow> string \<Rightarrow> string \<Rightarrow> jv \<Rightarrow> resolved_addon option" where
  "resolveAddonName env configDir nm opts =
     (let resolved = resolved_generic env configDir nm;
          resolvedNode = nodeResolver env nm configDir;
          resolvedBrowser = browserResolver env nm configDir;
          pkg = readUpSync env resolved
      in if found resolved \<and> found resolvedBrowser \<and> matches_manager (str resolvedBrowser)
         then Some (Virtual nm (Some [str resolvedBrowser]) None None)
         else if found resolved \<and> found resolvedNode \<and> matches_preset (str resolvedNode)
         then Some (Presets (str resolvedNode))
         else (case pkg of
                 None \<Rightarrow> None
               | Some p \<Rightarrow> compose_addon nm opts (probe_entries env configDir nm p)))"

text \<open>
  The second version (lines 721 to 778). Its collaborators \<^verbatim>\<open>safeResolveAll\<close> and
  \<^verbatim>\<open>stripAbsNodeModulesPath\<close> are not in the source file and are parameters.
  \<^verbatim>\<open>
  previewFileAbsolute
    ? { bare: previewFile.includes('node_modules')
          ? stripAbsNodeModulesPath(previewFile) : previewFile,
        absolute: previewFileAbsolute }
    : previewFile
  \<close>
\<close>

definition previewAnnotations_of_2 :: "(string \<Rightarrow> string) \<Rightarrow> entries \<Rightarrow> annotation list option" where
  "previewAnnotations_of_2 stripAbsNodeModulesPath e =
     (if found (previewFile e)
      then Some [if found (previewFileAbsolute e)
                 then BareAbsolute
                        (if str_includes (str (previewFile e)) ''node_modules''
                         then stripAbsNodeModulesPath (str (previewFile e))
                         else str (previewFile e))
                        (str (previewFileAbsolute e))
                 else Bare (str (previewFile e))]
      else None)"

definition resolveAddonName_2 ::
  "(string \<Rightarrow> string \<Rightarrow> entries option) \<Rightarrow> (string \<Rightarrow> string) \<Rightarrow> string \<Rightarrow> string \<Rightarrow> jv \<Rightarrow>
   resolved_addon option" where
  "resolveAddonName_2 safeResolveAll stripAbsNodeModulesPath configDir nm opts =
     (case safeResolveAll nm configDir of
        None \<Rightarrow> None
      | Some resolved \<Rightarrow>
          if found (managerFile resolved) \<or> found (registerFile resolved)
             \<or> found (previewFile resolved) \<or> found (presetFile resolved)
          then Some (Virtual nm (managerEntries_of resolved)
                       (previewAnnotations_of_2 stripAbsNodeModulesPath resolved)
                       (presets_of resolved opts))
          else if found (fallback resolved) then Some (Presets (str (fallback resolved)))
          else None)"

text \<open>
  The consolidated collaborator that returns, entry by entry, what the first version
  computes for the same specifier, and nothing where the first version finds no package
  manifest. The comparison of the two versions is made against it.
\<close>

definition safeResolveAll_of :: "resolvers \<Rightarrow> string \<Rightarrow> string \<Rightarrow> entries option" where
  "safeResolveAll_of env nm configDir =
     map_option (probe_entries env configDir nm)
       (readUpSync env (resolved_generic env configDir nm))"

text \<open>
  The two early returns of the first version, which the second version does not have:
  \<^verbatim>\<open>
  if (resolved && resolvedBrowser && resolvedBrowser.match(/\/(manager|register(-panel)?).../))
    return { type: 'virtual', name, managerEntries: [resolvedBrowser] };
  if (resolved && resolvedNode && resolvedNode.match(/\/(preset).../))
    return { type: 'presets', name: resolvedNode };
  \<close>
  Their conditions, without the test of \<^verbatim>\<open>resolved\<close>, which is truthy whenever
  \<^verbatim>\<open>resolvedBrowser\<close> or \<^verbatim>\<open>resolvedNode\<close> is.
\<close>

definition direct_manager :: "resolvers \<Rightarrow> string \<Rightarrow> string \<Rightarrow> bool" where
  "direct_manager env configDir nm =
     (found (browserResolver env nm configDir)
      \<and> matches_manager (str (browserResolver env nm configDir)))"

definition direct_preset :: "resolvers \<Rightarrow> string \<Rightarrow> string \<Rightarrow> bool" where
  "direct_preset env configDir nm =
     (found (nodeResolver env nm configDir)
      \<and> matches_preset (str (nodeResolver env nm configDir)))"

text \<open>A \<^verbatim>\<open>stripAbsNodeModulesPath\<close> for the examples: the part of a path after its last
  \<^verbatim>\<open>node_modules/\<close>.\<close>

definition after_node_modules :: "string \<Rightarrow> string" where
  "after_node_modules p =
     (case filter (\<lambda>n. take 13 (drop n p) = ''node_modules/'') [0..<length p] of
        [] \<Rightarrow> p
      | n # ns \<Rightarrow> drop (last (n # ns) + 13) p)"

text \<open>A package \<^verbatim>\<open>addon-p\<close> that has a main file and a \<^verbatim>\<open>preset.js\<close>, and nothing else;
  and the per-entry results for it.\<close>

definition env_preset_only :: resolvers where
  "env_preset_only = \<lparr>
     browserResolver = (\<lambda>input from. None),
     nodeResolver = (\<lambda>input from.
       if input = ''addon-p'' then Some ''/nm/addon-p/index.js''
       else if input = ''addon-p/preset'' then Some ''/nm/addon-p/preset.js''
       else None),
     safeResolve = (\<lambda>input. None),
     safeResolveFrom = (\<lambda>from input. None),
     readUpSync = (\<lambda>from.
       Some \<lparr>pkg_path = ''/nm/addon-p/package.json'', pkg_exports = JUndefined\<rparr>),
     resolveImports = (\<lambda>exports input conditions. Inl TypeError),
     dirname = (\<lambda>p. ''/nm/addon-p''),
     join = (\<lambda>a b. a @ ''/'' @ b),
     slash = (\<lambda>p. p),
     cwd = ''/repo''\<rparr>"

definition entries_preset_only :: entries where
  "entries_preset_only =
     \<lparr>managerFile = None, registerFile = None, previewFile = None, previewFileAbsolute = None,
      presetFile = Some ''/nm/addon-p/preset.js'', fallback = Some ''/nm/addon-p/index.js''\<rparr>"

text \<open>A package \<^verbatim>\<open>addon-v\<close> under \<^verbatim>\<open>node_modules\<close> that has a main file and a
  \<^verbatim>\<open>preview.js\<close>.\<close>

definition env_preview :: resolvers where
  "env_preview = \<lparr>
     browserResolver = (\<lambda>input from.
       if input = ''addon-v'' then Some ''/repo/node_modules/addon-v/index.js''
       else if input = ''addon-v/preview'' then Some ''/repo/node_modules/addon-v/preview.js''
       else None),
     nodeResolver = (\<lambda>input from. None),
     safeResolve = (\<lambda>input. None),
     safeResolveFrom = (\<lambda>from input. None),
     readUpSync = (\<lambda>from.
       Some \<lparr>pkg_path = ''/repo/node_modules/addon-v/package.json'', pkg_exports = JUndefined\<rparr>),
     resolveImports = (\<lambda>exports input conditions. Inl TypeError),
     dirname = (\<lambda>p. ''/repo/node_modules/addon-v''),
     join = (\<lambda>a b. a @ ''/'' @ b),
     slash = (\<lambda>p. p),
     cwd = ''/repo''\<rparr>"

text \<open>A specifier \<^verbatim>\<open>addon-m/manager\<close> that resolves to the manager file of its package.\<close>

definition env_direct :: resolvers where
  "env_direct = \<lparr>
     browserResolver = (\<lambda>input from.
       if input = ''addon-m/manager'' then Some ''/nm/addon-m/manager.js'' else None),
     nodeResolver = (\<lambda>input from. None),
     safeResolve = (\<lambda>input. None),
     safeResolveFrom = (\<lambda>from input. None),
     readUpSync = (\<lambda>from.
       Some \<lparr>pkg_path = ''/nm/addon-m/package.json'', pkg_exports = JUndefined\<rparr>),
     resolveImports = (\<lambda>exports input conditions. Inl TypeError),
     dirname = (\<lambda>p. ''/nm/addon-m''),
     join = (\<lambda>a b. a @ ''/'' @ b),
     slash = (\<lambda>p. p),
     cwd = ''/repo''\<rparr>"

text \<open>A specifier \<^verbatim>\<open>addon-d/preset\<close> that resolves to the preset file of its package.\<close>

definition env_direct_preset :: resolvers where
  "env_direct_preset = \<lparr>
     browserResolver = (\<lambda>input from. None),
     nodeResolver = (\<lambda>input from.
       if input = ''addon-d/preset'' then Some ''/nm/addon-d/preset.js'' else None),
     safeResolve = (\<lambda>input. None),
     safeResolveFrom = (\<lambda>from input. None),
     readUpSync = (\<lambda>from.
       Some \<lparr>pkg_path = ''/nm/addon-d/package.json'', pkg_exports = JUndefined\<rparr>),
     resolveImports = (\<lambda>exports input conditions. Inl TypeError),
     dirname = (\<lambda>p. ''/nm/addon-d''),
     join = (\<lambda>a b. a @ ''/'' @ b),
     slash = (\<lambda>p. p),
     cwd = ''/repo''\<rparr>"

text \<open>The same specifier where the package holds a \<^verbatim>\<open>preset.mjs\<close>, which the browser
  resolution prefers, beside the \<^verbatim>\<open>preset.js\<close> that the node resolution finds.\<close>

definition env_direct_split :: resolvers where
  "env_direct_split = \<lparr>
     browserResolver = (\<lambda>input from.
       if input = ''addon-d/preset'' then Some ''/nm/addon-d/preset.mjs'' else None),
     nodeResolver = (\<lambda>input from.
       if input = ''addon-d/preset'' then Some ''/nm/addon-d/preset.js'' else None),
     safeResolve = (\<lambda>input. None),
     safeResolveFrom = (\<lambda>from input. None),
     readUpSync = (\<lambda>from.
       Some \<lparr>pkg_path = ''/nm/addon-d/package.json'', pkg_exports = JUndefined\<rparr>),
     resolveImports = (\<lambda>exports input conditions. Inl TypeError),
     dirname = (\<lambda>p. ''/nm/addon-d''),
     join = (\<lambda>a b. a @ ''/'' @ b),
     slash = (\<lambda>p. p),
     cwd = ''/repo''\<rparr>"

text \<open>A package \<^verbatim>\<open>addon-f\<close> in the repository itself that has a main file, a
  \<^verbatim>\<open>manager.js\<close>, a \<^verbatim>\<open>preview.js\<close> and a \<^verbatim>\<open>preset.js\<close>.\<close>

definition env_full :: resolvers where
  "env_full = \<lparr>
     browserResolver = (\<lambda>input from.
       if input = ''addon-f'' then Some ''/repo/addons/addon-f/index.js''
       else if input = ''addon-f/manager'' then Some ''/repo/addons/addon-f/manager.js''
       else if input = ''addon-f/preview'' then Some ''/repo/addons/addon-f/preview.js''
       else None),
     nodeResolver = (\<lambda>input from.
       if input = ''addon-f/preset'' then Some ''/repo/addons/addon-f/preset.js'' else None),
     safeResolve = (\<lambda>input. None),
     safeResolveFrom = (\<lambda>from input. None),
     readUpSync = (\<lambda>from.
       Some \<lparr>pkg_path = ''/repo/addons/addon-f/package.json'', pkg_exports = JUndefined\<rparr>),
     resolveImports = (\<lambda>exports input conditions. Inl TypeError),
     dirname = (\<lambda>p. ''/repo/addons/addon-f''),
     join = (\<lambda>a b. a @ ''/'' @ b),
     slash = (\<lambda>p. p),
     cwd = ''/repo''\<rparr>"

section \<open>Properties of the extension applier\<close>

lemma applyPresets_unfold:
  "applyPresets n fenv presets extension config args storybookOptions =
     applyPresets_fold (nested_apply n fenv presets storybookOptions)
       fenv presets extension config args storybookOptions"
  by (cases n) (simp_all add: nested_apply_def)

lemma applyPresets_fold_foldl:
  "applyPresets_fold ap fenv presets extension config args storybookOptions =
     foldl (applyPresets_reducer ap fenv presets extension args storybookOptions)
       (Some (Inr config)) presets"
  by (cases presets) (simp_all add: applyPresets_fold_def)


lemma then_promise_simps [simp]:
  "then_promise None f = None"
  "then_promise (Some (Inl e)) f = Some (Inl e)"
  "then_promise (Some (Inr v)) f = f v"
  by (simp_all add: then_promise_def)

lemma reducer_rejected:
  "applyPresets_reducer ap fenv presets extension args storybookOptions (Some (Inl e)) p
     = Some (Inl e)"
  by (simp add: applyPresets_reducer_def Let_def split: jv.splits)

lemma foldl_reducer_rejected:
  "foldl (applyPresets_reducer ap fenv presets extension args storybookOptions)
     (Some (Inl e)) ps = Some (Inl e)"
  by (induction ps) (simp_all add: reducer_rejected)



lemma reducer_function:
  "member (preset p) extension = JFun f \<Longrightarrow>
     applyPresets_reducer ap fenv presets extension args storybookOptions (Some (Inr c)) p
       = run ap (fenv f (preset p) c
           (combinedOptions storybookOptions args (options p) presets))"
  by (simp add: applyPresets_reducer_def)

text \<open>
  The bound on nested calls of \<^verbatim>\<open>apply\<close> is only a bound: a call that settles within \<open>n\<close>
  settles the same way within every larger bound.
\<close>

lemma run_mono:
  assumes m: "\<And>x c a r. ap x c a = Some r \<Longrightarrow> ap' x c a = Some r"
  shows "run ap act = Some r \<Longrightarrow> run ap' act = Some r"
proof (induction act arbitrary: r)
  case (CallApply x c a k)
  then obtain r0 where r0: "ap x c a = Some r0" and k: "run ap (k r0) = Some r"
    by (auto split: option.splits)
  have "ap' x c a = Some r0" using r0 by (rule m)
  moreover have "run ap' (k r0) = Some r" using k by (rule CallApply.IH [OF rangeI])
  ultimately show ?case by simp
qed simp_all

lemma reducer_mono:
  assumes m: "\<And>x c a r. ap x c a = Some r \<Longrightarrow> ap' x c a = Some r"
    and h: "applyPresets_reducer ap fenv presets extension args sbo acc p = Some r"
  shows "applyPresets_reducer ap' fenv presets extension args sbo acc p = Some r"
proof (cases "truthy (member (preset p) extension)")
  case False
  then show ?thesis using h by (simp add: applyPresets_reducer_def)
next
  case True
  show ?thesis
  proof (cases "member (preset p) extension")
    case (JFun f)
    show ?thesis
    proof (cases acc)
      case None
      then show ?thesis using h JFun by (simp add: applyPresets_reducer_def then_promise_def)
    next
      case (Some o1)
      show ?thesis
      proof (cases o1)
        case (Inl e)
        then show ?thesis
          using h JFun Some by (auto simp add: applyPresets_reducer_def then_promise_def)
      next
        case (Inr c)
        then have "run ap (fenv f (preset p) c
                     (combinedOptions sbo args (options p) presets)) = Some r"
          using h JFun Some by (simp add: applyPresets_reducer_def then_promise_def)
        then have "run ap' (fenv f (preset p) c
                     (combinedOptions sbo args (options p) presets)) = Some r"
          by (rule run_mono [rotated]) (rule m)
        then show ?thesis
          using JFun Some Inr by (simp add: applyPresets_reducer_def then_promise_def)
      qed
    qed
  qed (use h True in \<open>simp_all add: applyPresets_reducer_def\<close>)
qed

lemma foldl_reducer_mono:
  assumes m: "\<And>x c a r. ap x c a = Some r \<Longrightarrow> ap' x c a = Some r"
  shows "foldl (applyPresets_reducer ap fenv presets extension args sbo) acc ps = Some r \<Longrightarrow>
         foldl (applyPresets_reducer ap' fenv presets extension args sbo) acc ps = Some r"
proof (induction ps arbitrary: r rule: rev_induct)
  case Nil
  then show ?case by simp
next
  case (snoc p ps)
  let ?a = "foldl (applyPresets_reducer ap fenv presets extension args sbo) acc ps"
  have red: "applyPresets_reducer ap fenv presets extension args sbo ?a p = Some r"
    using snoc.prems by simp
  have "?a \<noteq> None"
  proof
    assume "?a = None"
    then have "applyPresets_reducer ap fenv presets extension args sbo ?a p = None"
      by (simp add: applyPresets_reducer_def then_promise_def Let_def split: jv.splits)
    then show False using red by simp
  qed
  then obtain a where a: "?a = Some a" by auto
  then have a': "foldl (applyPresets_reducer ap' fenv presets extension args sbo) acc ps = Some a"
    by (rule snoc.IH)
  have "applyPresets_reducer ap' fenv presets extension args sbo (Some a) p = Some r"
    using red a by (intro reducer_mono [where ap = ap, OF m]) simp_all
  then show ?case using a' by simp
qed

lemma applyPresets_fuel_mono:
  "applyPresets n fenv presets extension config args sbo = Some r \<Longrightarrow>
   applyPresets (Suc n) fenv presets extension config args sbo = Some r"
proof (induction n arbitrary: extension config args r)
  case 0
  have "foldl (applyPresets_reducer (\<lambda>x c a. None) fenv presets extension args sbo)
          (Some (Inr config)) presets = Some r"
    using 0 by (simp add: applyPresets_fold_foldl)
  then have "foldl (applyPresets_reducer
          (\<lambda>x c a. applyPresets 0 fenv presets x c (default_args a) sbo)
          fenv presets extension args sbo) (Some (Inr config)) presets = Some r"
    by (rule foldl_reducer_mono [rotated]) simp
  then show ?case by (simp add: applyPresets_fold_foldl)
next
  case (Suc n)
  have "foldl (applyPresets_reducer
          (\<lambda>x c a. applyPresets n fenv presets x c (default_args a) sbo)
          fenv presets extension args sbo) (Some (Inr config)) presets = Some r"
    using Suc.prems by (simp add: applyPresets_fold_foldl)
  then have "foldl (applyPresets_reducer
          (\<lambda>x c a. applyPresets (Suc n) fenv presets x c (default_args a) sbo)
          fenv presets extension args sbo) (Some (Inr config)) presets = Some r"
    by (rule foldl_reducer_mono [rotated]) (rule Suc.IH)
  then show ?case by (simp add: applyPresets_fold_foldl)
qed

text \<open>An extension function that folds another key through the nested \<^verbatim>\<open>apply\<close> gets the
  result of that fold; one level of nesting is enough for it.\<close>

lemma applyPresets_nested_example:
  "applyPresets 1 fenv_nested [P_nested] ''a'' JNull JUndefined Map.empty
     = Some (Inr (JArr [JNum 7]))"
  by (simp add: applyPresets_fold_foldl applyPresets_reducer_def member_def object_prototype_def object_prototype_functions_def P_nested_def
      fenv_nested_def default_args_def)

text \<open>
  C6. When the accumulator is fulfilled with a sequence and the contribution of the preset
  is a sequence (so not a function), the step of the fold yields the accumulator's elements
  followed by the contribution's. In particular the fold of the key \<^verbatim>\<open>ext\<close> from the seed
  \<^verbatim>\<open>[]\<close> over \<^verbatim>\<open>P1 = { ext: [1] }\<close> and \<^verbatim>\<open>P2 = { ext: [2] }\<close> yields \<^verbatim>\<open>[1, 2]\<close>.
\<close>

theorem applyPresets_concat_sequences:
  "(member (preset p) extension = JArr change \<longrightarrow>
      applyPresets_reducer ap fenv presets extension args storybookOptions
        (Some (Inr (JArr newConfig))) p = Some (Inr (JArr (newConfig @ change))))
   \<and> applyPresets n fenv [P1_seq, P2_seq] ''ext'' (JArr []) args storybookOptions
       = Some (Inr (JArr [JNum 1, JNum 2]))"
  by (simp add: applyPresets_reducer_def applyPresets_unfold applyPresets_fold_foldl
      member_def object_prototype_def object_prototype_functions_def P1_seq_def P2_seq_def)

theorem applyPresets_concat_sequences_witness:
  "member (preset P2_seq) ''ext'' = JArr [JNum 2] \<and>
   applyPresets_reducer (\<lambda>ext c a. None) fenv_throw [P1_seq, P2_seq] ''ext'' (JObj Map.empty)
     Map.empty (Some (Inr (JArr [JNum 1]))) P2_seq = Some (Inr (JArr [JNum 1, JNum 2]))"
  using applyPresets_concat_sequences [of P2_seq "''ext''" "[JNum 2]" "\<lambda>ext c a. None"
      fenv_throw "[P1_seq, P2_seq]" "JObj Map.empty" Map.empty "[JNum 1]"]
  by (simp add: member_def object_prototype_def object_prototype_functions_def P2_seq_def)



text \<open>
  C8. Let the presets be \<open>before @ p # later\<close>, let the accumulator be fulfilled with \<open>c\<close>
  when the turn of \<open>p\<close> comes, and let the contribution of \<open>p\<close> be a function whose call
  throws \<open>e\<close> or returns a promise that rejects with \<open>e\<close>. Then \<^verbatim>\<open>applyPresets\<close> returns a
  promise rejected with \<open>e\<close>: nothing catches the error or puts a value in its place. This
  holds whatever the presets \<open>later\<close> are, so none of their contributions is applied: a
  later function that would throw something else, or never return, changes nothing.
\<close>

theorem applyPresets_function_fault_propagates:
  assumes "presets = before @ p # later"
    and "foldl (applyPresets_reducer (nested_apply n fenv presets storybookOptions) fenv presets
           extension args storybookOptions) (Some (Inr config)) before = Some (Inr c)"
    and "member (preset p) extension = JFun f"
    and "run (nested_apply n fenv presets storybookOptions)
           (fenv f (preset p) c (combinedOptions storybookOptions args (options p) presets))
         = Some (Inl e)"
  shows "applyPresets n fenv presets extension config args storybookOptions = Some (Inl e)"
proof -
  let ?R = "applyPresets_reducer (nested_apply n fenv presets storybookOptions) fenv presets
              extension args storybookOptions"
  have "foldl ?R (Some (Inr config)) presets = foldl ?R (?R (Some (Inr c)) p) later"
    using assms(1,2) by simp
  also have "?R (Some (Inr c)) p = Some (Inl e)"
    using assms(3,4) by (simp add: reducer_function)
  also have "foldl ?R (Some (Inl e)) later = Some (Inl e)"
    by (rule foldl_reducer_rejected)
  finally show ?thesis
    by (simp add: applyPresets_unfold applyPresets_fold_foldl)
qed

theorem applyPresets_function_fault_propagates_witness:
  "applyPresets 2 fenv_throw [P1_seq, P_throw, P2_seq] ''ext'' (JArr []) JUndefined Map.empty
     = Some (Inl (Thrown (JStr ''boom'')))"
  using applyPresets_function_fault_propagates [of "[P1_seq, P_throw, P2_seq]" "[P1_seq]"
      P_throw "[P2_seq]" 2 fenv_throw Map.empty "''ext''" JUndefined "JArr []" "JArr [JNum 1]" "Fn 0"
      "Thrown (JStr ''boom'')"]
  by (simp add: applyPresets_reducer_def member_def object_prototype_def object_prototype_functions_def P1_seq_def P_throw_def fenv_throw_def)

text \<open>A key that the preset does not have itself but inherits from \<^verbatim>\<open>Object.prototype\<close>,
  such as \<^verbatim>\<open>toString\<close>, is not skipped: the inherited function is called.\<close>

lemma reducer_inherited_function:
  "preset p ''toString'' = None \<Longrightarrow>
     applyPresets_reducer ap fenv presets ''toString'' args storybookOptions (Some (Inr c)) p
       = run ap (fenv (Builtin ''toString'') (preset p) c
           (combinedOptions storybookOptions args (options p) presets))"
  by (simp add: applyPresets_reducer_def member_def object_prototype_def
      object_prototype_functions_def)



text \<open>
  C10. In the \<^verbatim>\<open>combinedOptions\<close> that a function contribution is called with, the key
  \<^verbatim>\<open>presetsList\<close> holds the list of loaded presets and the key \<^verbatim>\<open>presets\<close> the object with
  the nested \<^verbatim>\<open>apply\<close>, whatever the host options, the arguments and the preset's options
  hold under these two names; any other key has the value of the preset's own options if
  they have the key, else that of the arguments of the call if they have it, else that of
  the host options.
\<close>

theorem combinedOptions_precedence:
  "combinedOptions storybookOptions args opts presets ''presetsList'' = Some (PresetsList presets)
   \<and> combinedOptions storybookOptions args opts presets ''presets'' = Some PresetsApply
   \<and> (k \<noteq> ''presetsList'' \<and> k \<noteq> ''presets'' \<longrightarrow>
        combinedOptions storybookOptions args opts presets k =
          (case spread opts k of
             Some v \<Rightarrow> Some (Plain v)
           | None \<Rightarrow>
               (case spread args k of
                  Some v \<Rightarrow> Some (Plain v)
                | None \<Rightarrow> map_option Plain (storybookOptions k))))
   \<and> (member (preset p) extension = JFun f \<longrightarrow>
        applyPresets_reducer ap fenv presets extension args storybookOptions (Some (Inr c)) p
          = run ap (fenv f (preset p) c
              (combinedOptions storybookOptions args (options p) presets)))"
  by (auto simp add: combinedOptions_def map_add_def reducer_function split: option.splits)

theorem combinedOptions_precedence_witness:
  "combinedOptions [''x'' \<mapsto> JNum 1, ''y'' \<mapsto> JNum 1, ''z'' \<mapsto> JNum 1, ''presets'' \<mapsto> JNum 1]
      (JObj [''x'' \<mapsto> JNum 2, ''y'' \<mapsto> JNum 2, ''presetsList'' \<mapsto> JNum 2])
      (JObj [''x'' \<mapsto> JNum 3]) [P_throw] ''x'' = Some (Plain (JNum 3))
   \<and> combinedOptions [''x'' \<mapsto> JNum 1, ''y'' \<mapsto> JNum 1, ''z'' \<mapsto> JNum 1, ''presets'' \<mapsto> JNum 1]
      (JObj [''x'' \<mapsto> JNum 2, ''y'' \<mapsto> JNum 2, ''presetsList'' \<mapsto> JNum 2])
      (JObj [''x'' \<mapsto> JNum 3]) [P_throw] ''presets'' = Some PresetsApply
   \<and> applyPresets_reducer (\<lambda>ext c a. None) fenv_read_x [P_throw] ''ext''
        (JObj [''x'' \<mapsto> JNum 2, ''y'' \<mapsto> JNum 2, ''presetsList'' \<mapsto> JNum 2])
        [''x'' \<mapsto> JNum 1, ''y'' \<mapsto> JNum 1, ''z'' \<mapsto> JNum 1, ''presets'' \<mapsto> JNum 1]
        (Some (Inr JNull)) P_throw
      = Some (Inr (JNum 3))"
  using combinedOptions_precedence [of
      "[''x'' \<mapsto> JNum 1, ''y'' \<mapsto> JNum 1, ''z'' \<mapsto> JNum 1, ''presets'' \<mapsto> JNum 1]"
      "JObj [''x'' \<mapsto> JNum 2, ''y'' \<mapsto> JNum 2, ''presetsList'' \<mapsto> JNum 2]"
      "JObj [''x'' \<mapsto> JNum 3]" "[P_throw]" "''x''" P_throw "''ext''" "Fn 0"
      "\<lambda>ext c a. None" fenv_read_x JNull]
  by (simp add: member_def object_prototype_def object_prototype_functions_def P_throw_def fenv_read_x_def)

section \<open>Properties of the preset loader\<close>

lemma and_then_simps [simp]:
  "and_then (Inl e) f = Inl e"
  "and_then (Inr v) f = f v"
  by (simp_all add: and_then_def)

lemma join_loads_unit [simp]: "join_loads r (Some ([], Inr [])) = r"
  by (cases "(r, Some ([]::log_entry list, Inr []::error + loaded list))" rule: join_loads.cases)
    simp_all

lemma join_loads_fulfilled:
  "join_loads a b = Some (l, Inr e) \<Longrightarrow>
     \<exists>la xs lb ys. a = Some (la, Inr xs) \<and> b = Some (lb, Inr ys) \<and> l = la @ lb \<and> e = xs @ ys"
  by (cases "(a, b)" rule: join_loads.cases) auto

lemma loadPresets_with_all:
  "loadPresets_with lp (JArr ps) level = promise_all (map (\<lambda>p. lp p level) ps)"
  by (cases ps) (simp_all add: loadPresets_with_def)

lemma loadPresets_with_single:
  "loadPresets_with lp (JArr [p]) level = lp p level"
  by (simp add: loadPresets_with_all)

lemma loadPresets_with_Cons:
  "loadPresets_with lp (JArr (p # ps)) level
     = join_loads (lp p level) (loadPresets_with lp (JArr ps) level)"
  by (simp add: loadPresets_with_all)

lemma promise_all_append_fulfilled:
  "promise_all rs = Some (l1, Inr e1) \<Longrightarrow> promise_all ss = Some (l2, Inr e2) \<Longrightarrow>
   promise_all (rs @ ss) = Some (l1 @ l2, Inr (e1 @ e2))"
proof (induction rs arbitrary: l1 e1)
  case Nil
  then show ?case by simp
next
  case (Cons r rs)
  from Cons.prems(1) obtain la xs lb ys where
    r: "r = Some (la, Inr xs)" and rest: "promise_all rs = Some (lb, Inr ys)"
    and l: "l1 = la @ lb" and e: "e1 = xs @ ys"
    by (auto dest: join_loads_fulfilled)
  have "promise_all (rs @ ss) = Some (lb @ l2, Inr (ys @ e2))"
    using rest Cons.prems(2) by (rule Cons.IH)
  then show ?case using r l e by simp
qed

text \<open>A rejected load rejects the pass, whatever the other loads of the list do.\<close>

lemma promise_all_rejects:
  "Some (lb, Inl e) \<in> set rs \<Longrightarrow> \<exists>l e'. promise_all rs = Some (l, Inl e')"
proof (induction rs)
  case Nil
  then show ?case by simp
next
  case (Cons r rs)
  show ?case
  proof (cases "r = Some (lb, Inl e)")
    case True
    then show ?thesis by simp
  next
    case False
    then obtain l e' where "promise_all rs = Some (l, Inl e')"
      using Cons by auto
    then show ?thesis
      by (cases "(r, Some (l, Inl e' :: error + loaded list))" rule: join_loads.cases) auto
  qed
qed

text \<open>
  The \<^verbatim>\<open>catch\<close> of \<^verbatim>\<open>loadPreset\<close>: where the \<^verbatim>\<open>try\<close> block throws \<open>e\<close> and the warning can be
  built, the fault is contained: the warning and the error are logged and the empty list
  returned. Where \<^verbatim>\<open>JSON.stringify(input)\<close> throws \<open>e'\<close>, nothing is logged and the promise
  is rejected with \<open>e'\<close>.
\<close>

lemma loadPreset_fault_contained:
  assumes "loadPreset_try (loadPresets_with (\<lambda>p l. loadPreset n env p l storybookOptions))
             env input level storybookOptions = Some (log, Inl e)"
    and "JSON_stringify env input = Inr msg"
  shows "loadPreset (Suc n) env input level storybookOptions
       = Some (log @ [Warn_failed_to_load input (if level > 0 then Some level else None),
                      Error_logged e], Inr [])"
  using assms by simp

lemma loadPreset_fault_escapes:
  assumes "loadPreset_try (loadPresets_with (\<lambda>p l. loadPreset n env p l storybookOptions))
             env input level storybookOptions = Some (log, Inl e)"
    and "JSON_stringify env input = Inl e'"
  shows "loadPreset (Suc n) env input level storybookOptions = Some (log, Inl e')"
  using assms by simp

text \<open>The module \<^verbatim>\<open>A\<close> of \<open>env_cyclic\<close> lists itself among its presets: its load settles
  within no bound.\<close>

lemma loadPreset_cyclic_never_returns:
  "loadPreset n env_cyclic (JStr ''A'') level Map.empty = None"
proof (induction n arbitrary: level)
  case 0
  show ?case by simp
next
  case (Suc n)
  have c: "loadPreset_contents env_cyclic (JStr ''A'') Map.empty
             = Inr (JStr ''A'', JObj Map.empty, JObj [''presets'' \<mapsto> JArr [JStr ''A'']])"
    by (simp add: loadPreset_contents_def getContent_def env_cyclic_def)
  show ?case
    by (simp add: loadPreset_try_def c resolvePresetFunction_def member_def object_prototype_def
        object_prototype_functions_def loadPresets_with_single Suc.IH)
qed

text \<open>The specifier \<^verbatim>\<open>good\<close> of \<open>env_siblings\<close> loads, and \<^verbatim>\<open>{ name: 'missing', toJSON }\<close>
  fails to import.\<close>

lemma good_loaded:
  "loadPreset (Suc n) env_siblings (JStr ''good'') level Map.empty
     = Some ([], Inr [\<lparr>name = JStr ''good'', preset = [''ext'' \<mapsto> JArr [JNum 1]],
                       options = JObj Map.empty\<rparr>])"
  by (simp add: loadPreset_try_def loadPreset_contents_def getContent_def env_siblings_def
      resolvePresetFunction_def member_def object_prototype_def object_prototype_functions_def
      loadPresets_with_def)

lemma unprintable_throws:
  "loadPreset_try lps env_siblings unprintable level Map.empty
     = Some ([], Inl (Thrown (JStr ''Cannot find module'')))"
  by (simp add: loadPreset_try_def loadPreset_contents_def getContent_def env_siblings_def
      unprintable_def member_def object_prototype_def object_prototype_functions_def)

lemma unprintable_stringify:
  "JSON_stringify env_siblings unprintable = Inl (Thrown (JStr ''boom''))"
  by (simp add: env_siblings_def throwing_toJSON_def unprintable_def)

text \<open>
  C3. The claim is not met by the code. In \<open>env_siblings\<close> the specifier
  \<^verbatim>\<open>{ name: 'missing', toJSON() { throw 'boom' } }\<close> fails to import; the \<^verbatim>\<open>catch\<close> of
  \<^verbatim>\<open>loadPreset\<close> then evaluates \<^verbatim>\<open>JSON.stringify(input)\<close>, which throws, so \<^verbatim>\<open>loadPreset\<close>
  does not return the empty list but rejects, having logged nothing; \<^verbatim>\<open>Promise.all\<close> in
  \<^verbatim>\<open>loadPresets\<close> rejects with it, and the entry of the sibling \<^verbatim>\<open>good\<close>, which the pass
  returns when the failing specifier is absent, is lost.
\<close>

theorem loadPresets_fault_not_contained:
  "loadPreset (Suc n) env_siblings unprintable 0 Map.empty
     = Some ([], Inl (Thrown (JStr ''boom'')))
   \<and> loadPresets (Suc n) env_siblings (JArr [JStr ''good'', unprintable]) 0 Map.empty
     = Some ([], Inl (Thrown (JStr ''boom'')))
   \<and> loadPresets (Suc n) env_siblings (JArr [JStr ''good'']) 0 Map.empty
     = Some ([], Inr [\<lparr>name = JStr ''good'', preset = [''ext'' \<mapsto> JArr [JNum 1]],
                       options = JObj Map.empty\<rparr>])"
proof -
  have bad: "loadPreset (Suc n) env_siblings unprintable 0 Map.empty
     = Some ([], Inl (Thrown (JStr ''boom'')))"
    by (simp add: unprintable_throws unprintable_stringify)
  show ?thesis
    by (simp add: loadPresets_def loadPresets_with_all bad good_loaded del: loadPreset.simps)
qed

text \<open>
  C4, as stated, fails for a keyed structure whose \<^verbatim>\<open>presets\<close> (or \<^verbatim>\<open>addons\<close>) key holds a
  function that throws: in \<open>env_thrower\<close> the contents of the specifier \<^verbatim>\<open>B\<close> are the keyed
  structure \<^verbatim>\<open>{ presets: f, ext: 1 }\<close>, the call of \<open>f\<close> in \<^verbatim>\<open>resolvePresetFunction\<close> throws
  inside the \<^verbatim>\<open>try\<close> block, and \<^verbatim>\<open>loadPreset\<close> returns the empty list: there is no entry for
  the specifier itself. It fails also where a nested load does not return: in \<open>env_cyclic\<close>
  the contents of \<^verbatim>\<open>A\<close> are the keyed structure \<^verbatim>\<open>{ presets: ['A'] }\<close>, and \<^verbatim>\<open>loadPreset\<close>
  returns no list at all.
\<close>

theorem loadPreset_keyed_order_counterexample:
  "loadPreset_contents env_thrower (JStr ''B'') Map.empty
     = Inr (JStr ''B'', JObj Map.empty, JObj [''presets'' \<mapsto> JFun (Fn 0), ''ext'' \<mapsto> JNum 1])
   \<and> (\<forall>n. loadPreset (Suc n) env_thrower (JStr ''B'') 0 Map.empty
         = Some ([Warn_failed_to_load (JStr ''B'') None, Error_logged (Thrown (JStr ''boom''))],
                 Inr []))
   \<and> loadPreset_contents env_cyclic (JStr ''A'') Map.empty
     = Inr (JStr ''A'', JObj Map.empty, JObj [''presets'' \<mapsto> JArr [JStr ''A'']])
   \<and> (\<forall>n. loadPreset n env_cyclic (JStr ''A'') 0 Map.empty = None)"
proof -
  have cyc: "loadPreset_contents env_cyclic (JStr ''A'') Map.empty
     = Inr (JStr ''A'', JObj Map.empty, JObj [''presets'' \<mapsto> JArr [JStr ''A'']])"
    by (simp add: loadPreset_contents_def getContent_def env_cyclic_def)
  have c: "loadPreset_contents env_thrower (JStr ''B'') Map.empty
     = Inr (JStr ''B'', JObj Map.empty, JObj [''presets'' \<mapsto> JFun (Fn 0), ''ext'' \<mapsto> JNum 1])"
    by (simp add: loadPreset_contents_def getContent_def env_thrower_def)
  have t: "loadPreset_try lps env_thrower (JStr ''B'') 0 Map.empty
      = Some ([], Inl (Thrown (JStr ''boom'')))" for lps
    by (simp add: loadPreset_try_def c resolvePresetFunction_def member_def
        object_prototype_def object_prototype_functions_def)
      (simp add: env_thrower_def)
  have s: "JSON_stringify env_thrower (JStr ''B'') = Inr []"
    by (simp add: env_thrower_def plain_text_def)
  show ?thesis using c cyc by (simp add: t s loadPreset_cyclic_never_returns)
qed

text \<open>
  C4, amended. Let the contents of a specifier be a keyed structure \<open>m\<close>, let its presets
  and addons sub-lists be obtained without a fault (\<^verbatim>\<open>resolvePresetFunction\<close> returns
  \<open>subPresets\<close> and \<open>subAddons\<close>), let \<^verbatim>\<open>map\<close> turn the addons into specifiers without a
  fault (\<open>mapped\<close>, of which the unresolved ones are dropped), and let the nested loads
  return: \<open>loaded1\<close> for the presets sub-list, \<open>loaded2\<close> for the addons sub-list. Then
  \<^verbatim>\<open>loadPreset\<close> returns \<open>loaded1\<close>, then \<open>loaded2\<close>, then exactly one entry
  \<^verbatim>\<open>{ name, preset, options }\<close> for the specifier itself, whose \<^verbatim>\<open>preset\<close> is \<open>m\<close> without the
  keys \<^verbatim>\<open>addons\<close> and \<^verbatim>\<open>presets\<close>. Across siblings, \<^verbatim>\<open>loadPresets\<close> of a one-element list is
  \<^verbatim>\<open>loadPreset\<close> of the element, and where the loads of \<open>xs\<close> and of \<open>ys\<close> return, the
  entries for \<open>xs @ ys\<close> are the entries for \<open>xs\<close> followed by the entries for \<open>ys\<close>: the
  flat output keeps the depth-first, left-to-right order of the input.
\<close>

theorem loadPreset_keyed_order:
  "(loadPreset_contents env input storybookOptions = Inr (nm, presetOptions, JObj m)
    \<and> resolvePresetFunction env (member m ''presets'') presetOptions storybookOptions
        = Inr subPresets
    \<and> resolvePresetFunction env (member m ''addons'') presetOptions storybookOptions
        = Inr subAddons
    \<and> loadPresets n env (JArr subPresets) (level + 1) storybookOptions
        = Some (log1, Inr loaded1)
    \<and> map_addons env storybookOptions subAddons = (maplog, Inr mapped)
    \<and> loadPresets n env (JArr (filter truthy mapped)) (level + 1) storybookOptions
        = Some (log2, Inr loaded2)
    \<longrightarrow> loadPreset (Suc n) env input level storybookOptions
          = Some (log1 @ maplog @ log2,
                  Inr (loaded1 @ loaded2 @
                    [\<lparr>name = nm, preset = m(''addons'' := None, ''presets'' := None),
                      options = presetOptions\<rparr>])))
   \<and> loadPresets n env (JArr [p]) level storybookOptions
       = loadPreset n env p level storybookOptions
   \<and> (loadPresets n env (JArr xs) level storybookOptions = Some (l1, Inr e1)
      \<and> loadPresets n env (JArr ys) level storybookOptions = Some (l2, Inr e2)
      \<longrightarrow> loadPresets n env (JArr (xs @ ys)) level storybookOptions
            = Some (l1 @ l2, Inr (e1 @ e2)))"
proof (intro conjI impI)
  assume "loadPreset_contents env input storybookOptions = Inr (nm, presetOptions, JObj m)
    \<and> resolvePresetFunction env (member m ''presets'') presetOptions storybookOptions
        = Inr subPresets
    \<and> resolvePresetFunction env (member m ''addons'') presetOptions storybookOptions
        = Inr subAddons
    \<and> loadPresets n env (JArr subPresets) (level + 1) storybookOptions
        = Some (log1, Inr loaded1)
    \<and> map_addons env storybookOptions subAddons = (maplog, Inr mapped)
    \<and> loadPresets n env (JArr (filter truthy mapped)) (level + 1) storybookOptions
        = Some (log2, Inr loaded2)"
  then show "loadPreset (Suc n) env input level storybookOptions
          = Some (log1 @ maplog @ log2,
                  Inr (loaded1 @ loaded2 @
                    [\<lparr>name = nm, preset = m(''addons'' := None, ''presets'' := None),
                      options = presetOptions\<rparr>]))"
    by (simp add: loadPreset_try_def loadPresets_def)
next
  show "loadPresets n env (JArr [p]) level storybookOptions
      = loadPreset n env p level storybookOptions"
    by (simp add: loadPresets_def loadPresets_with_single)
next
  assume "loadPresets n env (JArr xs) level storybookOptions = Some (l1, Inr e1)
      \<and> loadPresets n env (JArr ys) level storybookOptions = Some (l2, Inr e2)"
  then show "loadPresets n env (JArr (xs @ ys)) level storybookOptions
            = Some (l1 @ l2, Inr (e1 @ e2))"
    by (simp add: loadPresets_def loadPresets_with_all promise_all_append_fulfilled)
qed

lemma inner_loaded:
  "loadPreset (Suc n) env_nested (JStr ''inner'') level Map.empty
     = Some ([], Inr [\<lparr>name = JStr ''inner'', preset = [''ext'' \<mapsto> JNum 2],
                       options = JObj Map.empty\<rparr>])"
  by (simp add: loadPreset_try_def loadPreset_contents_def getContent_def env_nested_def
        resolvePresetFunction_def member_def object_prototype_def
        object_prototype_functions_def loadPresets_with_def)

lemma addon_mapped:
  "map_addons env_nested Map.empty [JStr ''addon-a'']
     = ([], Inr [JObj [''type'' \<mapsto> JStr ''virtual'', ''name'' \<mapsto> JStr ''addon-a'',
                       ''managerEntries'' \<mapsto> JArr [JStr ''/nm/addon-a/manager.js'']]])"
  by (simp add: map_addon_def env_nested_def member_def object_prototype_def
      object_prototype_functions_def)

lemma addon_loaded:
  "loadPreset (Suc n) env_nested
       (JObj [''type'' \<mapsto> JStr ''virtual'', ''name'' \<mapsto> JStr ''addon-a'',
              ''managerEntries'' \<mapsto> JArr [JStr ''/nm/addon-a/manager.js'']]) level Map.empty
     = Some ([], Inr [\<lparr>name = JStr ''addon-a'',
          preset = [''managerEntries'' \<mapsto> JArr [JStr ''/nm/addon-a/manager.js'']],
          options = JObj Map.empty\<rparr>])"
  by (simp add: loadPreset_try_def loadPreset_contents_def getContent_def
        resolvePresetFunction_def member_def object_prototype_def
        object_prototype_functions_def loadPresets_with_def)

lemma main_rest:
  "[''presets'' \<mapsto> JArr [JStr ''inner''], ''addons'' \<mapsto> JArr [JStr ''addon-a''],
    ''ext'' \<mapsto> JNum 1](''addons'' := None, ''presets'' := None) = [''ext'' \<mapsto> JNum 1]"
  by (rule ext) simp

theorem loadPreset_keyed_order_witness:
  "loadPreset_contents env_nested (JStr ''main'') Map.empty
     = Inr (JStr ''main'', JObj Map.empty,
         JObj [''presets'' \<mapsto> JArr [JStr ''inner''], ''addons'' \<mapsto> JArr [JStr ''addon-a''],
               ''ext'' \<mapsto> JNum 1])
   \<and> loadPreset 2 env_nested (JStr ''main'') 0 Map.empty
     = Some ([], Inr
         [\<lparr>name = JStr ''inner'', preset = [''ext'' \<mapsto> JNum 2], options = JObj Map.empty\<rparr>,
          \<lparr>name = JStr ''addon-a'',
            preset = [''managerEntries'' \<mapsto> JArr [JStr ''/nm/addon-a/manager.js'']],
            options = JObj Map.empty\<rparr>,
          \<lparr>name = JStr ''main'', preset = [''ext'' \<mapsto> JNum 1], options = JObj Map.empty\<rparr>])"
proof -
  let ?m = "[''presets'' \<mapsto> JArr [JStr ''inner''], ''addons'' \<mapsto> JArr [JStr ''addon-a''],
               ''ext'' \<mapsto> JNum 1]"
  let ?addon = "JObj [''type'' \<mapsto> JStr ''virtual'', ''name'' \<mapsto> JStr ''addon-a'',
                       ''managerEntries'' \<mapsto> JArr [JStr ''/nm/addon-a/manager.js'']]"
  have c: "loadPreset_contents env_nested (JStr ''main'') Map.empty
     = Inr (JStr ''main'', JObj Map.empty, JObj ?m)"
    by (simp add: loadPreset_contents_def getContent_def env_nested_def)
  have p: "resolvePresetFunction env_nested (member ?m ''presets'') (JObj Map.empty) Map.empty
     = Inr [JStr ''inner'']"
    by (simp add: resolvePresetFunction_def member_def)
  have a: "resolvePresetFunction env_nested (member ?m ''addons'') (JObj Map.empty) Map.empty
     = Inr [JStr ''addon-a'']"
    by (simp add: resolvePresetFunction_def member_def)
  have l1: "loadPresets 1 env_nested (JArr [JStr ''inner'']) (0 + 1) Map.empty
     = Some ([], Inr [\<lparr>name = JStr ''inner'', preset = [''ext'' \<mapsto> JNum 2],
                       options = JObj Map.empty\<rparr>])"
    unfolding loadPresets_def loadPresets_with_single One_nat_def by (rule inner_loaded)
  have l2: "loadPresets 1 env_nested (JArr (filter truthy [?addon])) (0 + 1) Map.empty
     = Some ([], Inr [\<lparr>name = JStr ''addon-a'',
               preset = [''managerEntries'' \<mapsto> JArr [JStr ''/nm/addon-a/manager.js'']],
               options = JObj Map.empty\<rparr>])"
    unfolding loadPresets_def One_nat_def
    by (simp add: loadPresets_with_single addon_loaded del: loadPreset.simps)
  have "loadPreset (Suc 1) env_nested (JStr ''main'') 0 Map.empty
     = Some ([] @ [] @ [],
         Inr ([\<lparr>name = JStr ''inner'', preset = [''ext'' \<mapsto> JNum 2],
                options = JObj Map.empty\<rparr>] @
             [\<lparr>name = JStr ''addon-a'',
               preset = [''managerEntries'' \<mapsto> JArr [JStr ''/nm/addon-a/manager.js'']],
               options = JObj Map.empty\<rparr>] @
             [\<lparr>name = JStr ''main'', preset = ?m(''addons'' := None, ''presets'' := None),
               options = JObj Map.empty\<rparr>]))"
    using loadPreset_keyed_order [where env = env_nested and input = "JStr ''main''"
        and storybookOptions = Map.empty and nm = "JStr ''main''"
        and presetOptions = "JObj Map.empty" and m = ?m and subPresets = "[JStr ''inner'']"
        and subAddons = "[JStr ''addon-a'']" and n = 1 and level = 0
        and maplog = "[]" and mapped = "[?addon]" and ?log1.0 = "[]" and ?log2.0 = "[]"]
      c p a l1 l2 addon_mapped
    by blast
  then show ?thesis
    using c by (simp only: main_rest append_Cons append_Nil Suc_1 simp_thms)
qed

section \<open>Properties of the two versions of \<^verbatim>\<open>resolveAddonName\<close>\<close>

lemma found_simps [simp]: "found None = False" "found (Some s) = (s \<noteq> [])"
  by (simp_all add: found_def)

lemma str_simps [simp]: "str None = []" "str (Some s) = s"
  by (simp_all add: str_def)

lemma or_else_simps [simp]: "or_else None b = b" "s \<noteq> [] \<Longrightarrow> or_else (Some s) b = Some s"
  by (simp_all add: or_else_def)

text \<open>The package with a preset only: what each version returns.\<close>

lemma probe_preset_only:
  "probe_entries env_preset_only configDir ''addon-p''
      \<lparr>pkg_path = ''/nm/addon-p/package.json'', pkg_exports = JUndefined\<rparr>
   = entries_preset_only"
  by (simp add: probe_entries_def resolveBrowser_def resolveNode_def resolveFromExportsBrowser_def
      resolveFromExportsNode_def resolved_generic_def env_preset_only_def startsWith_def
      entries_preset_only_def)

lemma resolved_preset_only:
  "resolved_generic env_preset_only ''/repo/.storybook'' ''addon-p'' = Some ''/nm/addon-p/index.js''"
  "nodeResolver env_preset_only ''addon-p'' ''/repo/.storybook'' = Some ''/nm/addon-p/index.js''"
  "browserResolver env_preset_only ''addon-p'' ''/repo/.storybook'' = None"
  "readUpSync env_preset_only (Some ''/nm/addon-p/index.js'')
     = Some \<lparr>pkg_path = ''/nm/addon-p/package.json'', pkg_exports = JUndefined\<rparr>"
  by (simp_all add: resolved_generic_def env_preset_only_def)

lemma index_is_no_preset: "\<not> matches_preset ''/nm/addon-p/index.js''"
  by (simp add: matches_preset_def script_extensions_def ends_with_def)

lemma all_preset_only:
  "safeResolveAll_of env_preset_only ''addon-p'' ''/repo/.storybook'' = Some entries_preset_only"
  by (simp add: safeResolveAll_of_def resolved_preset_only probe_preset_only)

lemma first_preset_only:
  "resolveAddonName env_preset_only ''/repo/.storybook'' ''addon-p'' opts
     = Some (Presets ''/nm/addon-p/preset.js'')"
  by (simp add: resolveAddonName_def resolved_preset_only index_is_no_preset probe_preset_only
      compose_addon_def entries_preset_only_def)

lemma second_preset_only:
  "safeResolveAll ''addon-p'' ''/repo/.storybook'' = Some entries_preset_only \<Longrightarrow>
   resolveAddonName_2 safeResolveAll strip ''/repo/.storybook'' ''addon-p'' opts
     = Some (Virtual ''addon-p'' None None (Some [(''/nm/addon-p/preset.js'', opts)]))"
  by (simp add: resolveAddonName_2_def entries_preset_only_def
      managerEntries_of_def previewAnnotations_of_2_def presets_of_def)

text \<open>The package with a preview under \<^verbatim>\<open>node_modules\<close>: what each version returns.\<close>

lemma strip_preview:
  "after_node_modules ''/repo/node_modules/addon-v/preview.js'' = ''addon-v/preview.js''"
  by code_simp

lemma includes_preview:
  "str_includes ''/repo/node_modules/addon-v/preview.js'' ''node_modules''"
  by code_simp

lemma index_is_no_manager:
  "\<not> matches_manager ''/repo/node_modules/addon-v/index.js''"
  by code_simp

lemma probe_preview:
  "probe_entries env_preview configDir ''addon-v''
      \<lparr>pkg_path = ''/repo/node_modules/addon-v/package.json'', pkg_exports = JUndefined\<rparr>
   = \<lparr>managerFile = None, registerFile = None,
      previewFile = Some ''/repo/node_modules/addon-v/preview.js'',
      previewFileAbsolute = Some ''/repo/node_modules/addon-v/preview.js'',
      presetFile = None, fallback = Some ''/repo/node_modules/addon-v/index.js''\<rparr>"
  by (simp add: probe_entries_def resolveBrowser_def resolveNode_def resolveFromExportsBrowser_def
      resolveFromExportsNode_def resolved_generic_def env_preview_def startsWith_def)

lemma resolved_preview:
  "resolved_generic env_preview ''/repo/.storybook'' ''addon-v''
     = Some ''/repo/node_modules/addon-v/index.js''"
  "browserResolver env_preview ''addon-v'' ''/repo/.storybook''
     = Some ''/repo/node_modules/addon-v/index.js''"
  "nodeResolver env_preview ''addon-v'' ''/repo/.storybook'' = None"
  "readUpSync env_preview (Some ''/repo/node_modules/addon-v/index.js'')
     = Some \<lparr>pkg_path = ''/repo/node_modules/addon-v/package.json'', pkg_exports = JUndefined\<rparr>"
  by (simp_all add: resolved_generic_def env_preview_def)

lemma first_preview:
  "resolveAddonName env_preview ''/repo/.storybook'' ''addon-v'' JUndefined
     = Some (Virtual ''addon-v'' None
         (Some [BareAbsolute ''/repo/node_modules/addon-v/preview.js''
                  ''/repo/node_modules/addon-v/preview.js'']) None)"
  by (simp add: resolveAddonName_def resolved_preview index_is_no_manager probe_preview
      compose_addon_def managerEntries_of_def previewAnnotations_of_def presets_of_def)

lemma second_preview:
  "resolveAddonName_2 (safeResolveAll_of env_preview) after_node_modules
       ''/repo/.storybook'' ''addon-v'' JUndefined
     = Some (Virtual ''addon-v'' None
         (Some [BareAbsolute ''addon-v/preview.js'' ''/repo/node_modules/addon-v/preview.js''])
         None)"
  by (simp add: resolveAddonName_2_def safeResolveAll_of_def resolved_preview probe_preview
      managerEntries_of_def previewAnnotations_of_2_def presets_of_def
      strip_preview includes_preview)

text \<open>The specifier that resolves to a manager file: what each version returns.\<close>

lemma manager_is_manager: "matches_manager ''/nm/addon-m/manager.js''"
  by code_simp

lemma resolved_direct:
  "resolved_generic env_direct ''/repo/.storybook'' ''addon-m/manager''
     = Some ''/nm/addon-m/manager.js''"
  "browserResolver env_direct ''addon-m/manager'' ''/repo/.storybook''
     = Some ''/nm/addon-m/manager.js''"
  "readUpSync env_direct (Some ''/nm/addon-m/manager.js'')
     = Some \<lparr>pkg_path = ''/nm/addon-m/package.json'', pkg_exports = JUndefined\<rparr>"
  by (simp_all add: resolved_generic_def env_direct_def)

lemma probe_direct:
  "probe_entries env_direct ''/repo/.storybook'' ''addon-m/manager''
      \<lparr>pkg_path = ''/nm/addon-m/package.json'', pkg_exports = JUndefined\<rparr>
   = \<lparr>managerFile = None, registerFile = None, previewFile = None, previewFileAbsolute = None,
      presetFile = None, fallback = Some ''/nm/addon-m/manager.js''\<rparr>"
  by (simp add: probe_entries_def resolveBrowser_def resolveNode_def resolveFromExportsBrowser_def
      resolveFromExportsNode_def resolved_generic_def env_direct_def startsWith_def)

lemma first_direct:
  "resolveAddonName env_direct ''/repo/.storybook'' ''addon-m/manager'' JUndefined
     = Some (Virtual ''addon-m/manager'' (Some [''/nm/addon-m/manager.js'']) None None)"
  by (simp add: resolveAddonName_def resolved_direct manager_is_manager)

lemma second_direct:
  "resolveAddonName_2 (safeResolveAll_of env_direct) after_node_modules
       ''/repo/.storybook'' ''addon-m/manager'' JUndefined
     = Some (Presets ''/nm/addon-m/manager.js'')"
  by (simp add: resolveAddonName_2_def safeResolveAll_of_def resolved_direct probe_direct)

text \<open>The specifier that resolves to two different preset files: what each version
  returns.\<close>

lemma preset_is_preset: "matches_preset ''/nm/addon-d/preset.js''"
  by code_simp

lemma preset_mjs_is_no_manager: "\<not> matches_manager ''/nm/addon-d/preset.mjs''"
  by code_simp

lemma resolved_direct_split:
  "resolved_generic env_direct_split ''/repo/.storybook'' ''addon-d/preset''
     = Some ''/nm/addon-d/preset.mjs''"
  "browserResolver env_direct_split ''addon-d/preset'' ''/repo/.storybook''
     = Some ''/nm/addon-d/preset.mjs''"
  "nodeResolver env_direct_split ''addon-d/preset'' ''/repo/.storybook''
     = Some ''/nm/addon-d/preset.js''"
  "readUpSync env_direct_split (Some ''/nm/addon-d/preset.mjs'')
     = Some \<lparr>pkg_path = ''/nm/addon-d/package.json'', pkg_exports = JUndefined\<rparr>"
  by (simp_all add: resolved_generic_def env_direct_split_def)

lemma probe_direct_split:
  "probe_entries env_direct_split ''/repo/.storybook'' ''addon-d/preset''
      \<lparr>pkg_path = ''/nm/addon-d/package.json'', pkg_exports = JUndefined\<rparr>
   = \<lparr>managerFile = None, registerFile = None, previewFile = None, previewFileAbsolute = None,
      presetFile = None, fallback = Some ''/nm/addon-d/preset.mjs''\<rparr>"
  by (simp add: probe_entries_def resolveBrowser_def resolveNode_def resolveFromExportsBrowser_def
      resolveFromExportsNode_def resolved_generic_def env_direct_split_def startsWith_def)

lemma first_direct_split:
  "resolveAddonName env_direct_split ''/repo/.storybook'' ''addon-d/preset'' JUndefined
     = Some (Presets ''/nm/addon-d/preset.js'')"
  by (simp add: resolveAddonName_def resolved_direct_split preset_is_preset
      preset_mjs_is_no_manager)

lemma second_direct_split:
  "resolveAddonName_2 (safeResolveAll_of env_direct_split) after_node_modules
       ''/repo/.storybook'' ''addon-d/preset'' JUndefined
     = Some (Presets ''/nm/addon-d/preset.mjs'')"
  by (simp add: resolveAddonName_2_def safeResolveAll_of_def resolved_direct_split
      probe_direct_split)

text \<open>
  C1, as stated, fails: with a consolidated collaborator that returns the per-entry results
  of the first version, the two versions differ
  \<^item> for the package \<^verbatim>\<open>addon-v\<close>, whose preview file lies under \<^verbatim>\<open>node_modules\<close>: the first
    version keeps the resolved path as the \<^verbatim>\<open>bare\<close> specifier of the annotation, the
    second passes it through \<^verbatim>\<open>stripAbsNodeModulesPath\<close>;
  \<^item> for the package \<^verbatim>\<open>addon-p\<close>, which has a preset and neither a manager nor a preview:
    the first version returns a result of kind \<^verbatim>\<open>presets\<close>, the second one of kind
    \<^verbatim>\<open>virtual\<close>;
  \<^item> for the specifier \<^verbatim>\<open>addon-m/manager\<close>, which itself resolves to a manager file: the
    first version returns at once a \<^verbatim>\<open>virtual\<close> result with that file as its manager
    entry, the second, which has no such branch, falls back to a result of kind
    \<^verbatim>\<open>presets\<close>;
  \<^item> for the specifier \<^verbatim>\<open>addon-d/preset\<close>, where the node resolution finds \<^verbatim>\<open>preset.js\<close>
    and the browser resolution \<^verbatim>\<open>preset.mjs\<close>: the first version returns at once a
    \<^verbatim>\<open>presets\<close> result that names the file of the node resolution, the second names the
    fallback, which is the file of the browser resolution.
\<close>

theorem resolveAddonName_versions_counterexample:
  "resolveAddonName env_preview ''/repo/.storybook'' ''addon-v'' JUndefined
     \<noteq> resolveAddonName_2 (safeResolveAll_of env_preview) after_node_modules
          ''/repo/.storybook'' ''addon-v'' JUndefined
   \<and> resolveAddonName env_preset_only ''/repo/.storybook'' ''addon-p'' JUndefined
     \<noteq> resolveAddonName_2 (safeResolveAll_of env_preset_only) after_node_modules
          ''/repo/.storybook'' ''addon-p'' JUndefined
   \<and> resolveAddonName env_direct ''/repo/.storybook'' ''addon-m/manager'' JUndefined
     \<noteq> resolveAddonName_2 (safeResolveAll_of env_direct) after_node_modules
          ''/repo/.storybook'' ''addon-m/manager'' JUndefined
   \<and> resolveAddonName env_direct_split ''/repo/.storybook'' ''addon-d/preset'' JUndefined
     \<noteq> resolveAddonName_2 (safeResolveAll_of env_direct_split) after_node_modules
          ''/repo/.storybook'' ''addon-d/preset'' JUndefined"
  unfolding first_preview second_preview first_preset_only
    second_preset_only [where safeResolveAll = "safeResolveAll_of env_preset_only",
      OF all_preset_only]
    first_direct second_direct first_direct_split second_direct_split
  by simp

text \<open>The first version as a chain of its three outcomes, and what it takes for the second
  version to return the result of each early return of the first.\<close>

lemma found_str: "found p \<longleftrightarrow> str p \<noteq> []"
  by (cases p) simp_all

lemma resolveAddonName_cases:
  "resolveAddonName env configDir nm opts =
     (if found (browserResolver env nm configDir)
         \<and> matches_manager (str (browserResolver env nm configDir))
      then Some (Virtual nm (Some [str (browserResolver env nm configDir)]) None None)
      else if found (nodeResolver env nm configDir)
              \<and> matches_preset (str (nodeResolver env nm configDir))
      then Some (Presets (str (nodeResolver env nm configDir)))
      else (case readUpSync env (resolved_generic env configDir nm) of
              None \<Rightarrow> None
            | Some p \<Rightarrow> compose_addon nm opts (probe_entries env configDir nm p)))"
proof -
  have b: "found (browserResolver env nm configDir) \<Longrightarrow> found (resolved_generic env configDir nm)"
    by (simp add: resolved_generic_def or_else_def)
  have n: "found (nodeResolver env nm configDir) \<Longrightarrow> found (resolved_generic env configDir nm)"
    by (simp add: resolved_generic_def or_else_def)
  show ?thesis
    using b n by (auto simp add: resolveAddonName_def Let_def)
qed

lemma managerEntries_of_found:
  "managerEntries_of e = Some files \<Longrightarrow> found (managerFile e) \<or> found (registerFile e)"
  by (simp add: managerEntries_of_def Let_def split: if_splits)

lemma resolveAddonName_2_is_manager_only:
  "Some (Virtual nm (Some [file]) None None)
     = resolveAddonName_2 safeResolveAll strip configDir nm opts \<longleftrightarrow>
   (\<exists>e. safeResolveAll nm configDir = Some e \<and> managerEntries_of e = Some [file]
        \<and> \<not> found (previewFile e) \<and> \<not> found (presetFile e))"
proof (cases "safeResolveAll nm configDir")
  case None
  then show ?thesis by (simp add: resolveAddonName_2_def)
next
  case (Some e)
  have pa: "(None = previewAnnotations_of_2 strip e) = (\<not> found (previewFile e))"
    by (simp add: previewAnnotations_of_2_def)
  have ps: "(None = presets_of e opts) = (\<not> found (presetFile e))"
    by (simp add: presets_of_def)
  have me: "(Some [file] = managerEntries_of e) = (managerEntries_of e = Some [file])"
    by (rule eq_commute)
  show ?thesis
    using managerEntries_of_found [of e "[file]"]
    by (simp add: resolveAddonName_2_def Some pa ps me) blast
qed

lemma resolveAddonName_2_is_presets:
  "Some (Presets file) = resolveAddonName_2 safeResolveAll strip configDir nm opts \<longleftrightarrow>
     (\<exists>e. safeResolveAll nm configDir = Some e
        \<and> \<not> found (managerFile e) \<and> \<not> found (registerFile e) \<and> \<not> found (previewFile e)
        \<and> \<not> found (presetFile e) \<and> found (fallback e) \<and> str (fallback e) = file)"
proof (cases "safeResolveAll nm configDir")
  case None
  then show ?thesis by (simp add: resolveAddonName_2_def)
next
  case (Some e)
  have fb: "(file = str (fallback e)) = (str (fallback e) = file)"
    by (rule eq_commute)
  show ?thesis by (auto simp add: resolveAddonName_2_def Some fb)
qed

text \<open>The end of the first version against the second, on the same per-entry results.\<close>

lemma compose_addon_agrees:
  "compose_addon nm opts e =
     (if found (managerFile e) \<or> found (registerFile e) \<or> found (previewFile e)
         \<or> found (presetFile e)
      then Some (Virtual nm (managerEntries_of e) (previewAnnotations_of_2 strip e)
                   (presets_of e opts))
      else if found (fallback e) then Some (Presets (str (fallback e))) else None)
   \<longleftrightarrow>
     (found (presetFile e) \<longrightarrow> found (managerFile e) \<or> found (previewFile e))
     \<and> (found (previewFile e) \<longrightarrow> found (previewFileAbsolute e) \<longrightarrow>
        str_includes (str (previewFile e)) ''node_modules'' \<longrightarrow>
        strip (str (previewFile e)) = str (previewFile e))"
  by (auto simp add: compose_addon_def previewAnnotations_of_2_def previewAnnotations_of_def
      presets_of_def)

text \<open>
  C1, amended. Let the consolidated collaborator return, for the specifier, the per-entry
  results of the first version (and nothing where the first version finds no package
  manifest). The two versions return the same result, or both \<^verbatim>\<open>undefined\<close>, exactly when
  \<^item> if the specifier itself resolves to a manager or register file, for which the first
    version returns at once a \<^verbatim>\<open>virtual\<close> result with that file as its one manager entry,
    then the per-entry results give that file as their one manager entry and resolve
    neither the preview nor the preset;
  \<^item> if the specifier itself resolves to a preset file (and not to a manager or register
    file), for which the first version returns at once a \<^verbatim>\<open>presets\<close> result that names
    that file, then the per-entry results resolve none of the manager, register, preview
    and preset entries, and their fallback is that same file;
  \<^item> a preset sub-entry is not the only one resolved beside a register file: when the
    preset resolves, so does the manager or the preview;
  \<^item> \<^verbatim>\<open>stripAbsNodeModulesPath\<close> leaves the bare preview path as it is, where the second
    version applies it.
\<close>

theorem resolveAddonName_versions_agree:
  assumes corr: "safeResolveAll nm configDir = safeResolveAll_of env nm configDir"
  shows "resolveAddonName env configDir nm opts
           = resolveAddonName_2 safeResolveAll stripAbsNodeModulesPath configDir nm opts
     \<longleftrightarrow>
       (direct_manager env configDir nm \<longrightarrow>
          (\<exists>e. safeResolveAll nm configDir = Some e
             \<and> managerEntries_of e = Some [str (browserResolver env nm configDir)]
             \<and> \<not> found (previewFile e) \<and> \<not> found (presetFile e)))
     \<and> (direct_preset env configDir nm \<and> \<not> direct_manager env configDir nm \<longrightarrow>
          (\<exists>e. safeResolveAll nm configDir = Some e
             \<and> \<not> found (managerFile e) \<and> \<not> found (registerFile e)
             \<and> \<not> found (previewFile e) \<and> \<not> found (presetFile e)
             \<and> str (fallback e) = str (nodeResolver env nm configDir)))
     \<and> (\<forall>e. safeResolveAll nm configDir = Some e \<longrightarrow> found (presetFile e) \<longrightarrow>
            found (managerFile e) \<or> found (previewFile e))
     \<and> (\<forall>e. safeResolveAll nm configDir = Some e \<longrightarrow> found (previewFile e) \<longrightarrow>
            found (previewFileAbsolute e) \<longrightarrow>
            str_includes (str (previewFile e)) ''node_modules'' \<longrightarrow>
            stripAbsNodeModulesPath (str (previewFile e)) = str (previewFile e))"
    (is "?L = ?R \<longleftrightarrow> ?A \<and> ?B \<and> ?C \<and> ?D")
proof -
  consider (manager) "direct_manager env configDir nm"
    | (preset) "\<not> direct_manager env configDir nm" "direct_preset env configDir nm"
    | (probe) "\<not> direct_manager env configDir nm" "\<not> direct_preset env configDir nm"
    by blast
  then show ?thesis
  proof cases
    case manager
    have l: "?L = Some (Virtual nm (Some [str (browserResolver env nm configDir)]) None None)"
      using manager by (simp add: resolveAddonName_cases direct_manager_def)
    have eq: "?L = ?R \<longleftrightarrow>
        (\<exists>e. safeResolveAll nm configDir = Some e
             \<and> managerEntries_of e = Some [str (browserResolver env nm configDir)]
             \<and> \<not> found (previewFile e) \<and> \<not> found (presetFile e))"
      unfolding l by (rule resolveAddonName_2_is_manager_only)
    have b: ?B using manager by simp
    have a: "?L = ?R \<longleftrightarrow> ?A" unfolding eq using manager by simp
    have c: "?A \<Longrightarrow> ?C" using manager by fastforce
    have d: "?A \<Longrightarrow> ?D" using manager by fastforce
    show ?thesis using a b c d by blast
  next
    case preset
    have l: "?L = Some (Presets (str (nodeResolver env nm configDir)))"
      using preset by (simp add: resolveAddonName_cases direct_manager_def direct_preset_def)
    have ne: "str (nodeResolver env nm configDir) \<noteq> []"
      using preset(2) by (simp add: direct_preset_def found_str)
    have eq: "?L = ?R \<longleftrightarrow>
        (\<exists>e. safeResolveAll nm configDir = Some e
             \<and> \<not> found (managerFile e) \<and> \<not> found (registerFile e)
             \<and> \<not> found (previewFile e) \<and> \<not> found (presetFile e)
             \<and> str (fallback e) = str (nodeResolver env nm configDir))"
      unfolding l resolveAddonName_2_is_presets using ne by (auto simp add: found_str)
    have a: ?A using preset by simp
    have b: "?L = ?R \<longleftrightarrow> ?B" unfolding eq using preset by simp
    have c: "?B \<Longrightarrow> ?C" using preset by fastforce
    have d: "?B \<Longrightarrow> ?D" using preset by fastforce
    show ?thesis using a b c d by blast
  next
    case probe
    have a: ?A using probe by simp
    have b: ?B using probe by simp
    have nm: "\<not> (found (browserResolver env nm configDir)
                 \<and> matches_manager (str (browserResolver env nm configDir)))"
      using probe(1) by (simp add: direct_manager_def)
    have np: "\<not> (found (nodeResolver env nm configDir)
                 \<and> matches_preset (str (nodeResolver env nm configDir)))"
      using probe(2) by (simp add: direct_preset_def)
    have l: "?L = (case readUpSync env (resolved_generic env configDir nm) of
              None \<Rightarrow> None
            | Some p \<Rightarrow> compose_addon nm opts (probe_entries env configDir nm p))"
      unfolding resolveAddonName_cases if_not_P [OF nm] if_not_P [OF np] ..
    show ?thesis
    proof (cases "readUpSync env (resolved_generic env configDir nm)")
      case None
      then have s: "safeResolveAll nm configDir = None"
        using corr by (simp add: safeResolveAll_of_def)
      have "?L = ?R" using None s by (simp add: l resolveAddonName_2_def)
      moreover have ?C using s by simp
      moreover have ?D using s by simp
      ultimately show ?thesis using a b by blast
    next
      case (Some p)
      define e where "e = probe_entries env configDir nm p"
      have s: "safeResolveAll nm configDir = Some e"
        using corr Some by (simp add: safeResolveAll_of_def e_def)
      have l': "?L = compose_addon nm opts e"
        using Some by (simp add: l e_def)
      have r: "?R = (if found (managerFile e) \<or> found (registerFile e) \<or> found (previewFile e)
                       \<or> found (presetFile e)
                    then Some (Virtual nm (managerEntries_of e)
                                 (previewAnnotations_of_2 stripAbsNodeModulesPath e)
                                 (presets_of e opts))
                    else if found (fallback e) then Some (Presets (str (fallback e))) else None)"
        by (simp add: resolveAddonName_2_def s)
      have c: "?C \<longleftrightarrow> (found (presetFile e) \<longrightarrow> found (managerFile e) \<or> found (previewFile e))"
        by (simp add: s)
      have d: "?D \<longleftrightarrow> (found (previewFile e) \<longrightarrow> found (previewFileAbsolute e) \<longrightarrow>
            str_includes (str (previewFile e)) ''node_modules'' \<longrightarrow>
            stripAbsNodeModulesPath (str (previewFile e)) = str (previewFile e))"
        by (simp add: s)
      have "?L = ?R \<longleftrightarrow> ?C \<and> ?D"
        unfolding l' r c d by (rule compose_addon_agrees)
      then show ?thesis using a b by blast
    qed
  qed
qed

text \<open>The package with a manager, a preview and a preset, outside \<^verbatim>\<open>node_modules\<close>.\<close>

lemma probe_full:
  "probe_entries env_full configDir ''addon-f''
      \<lparr>pkg_path = ''/repo/addons/addon-f/package.json'', pkg_exports = JUndefined\<rparr>
   = \<lparr>managerFile = Some ''/repo/addons/addon-f/manager.js'', registerFile = None,
      previewFile = Some ''/repo/addons/addon-f/preview.js'',
      previewFileAbsolute = Some ''/repo/addons/addon-f/preview.js'',
      presetFile = Some ''/repo/addons/addon-f/preset.js'',
      fallback = Some ''/repo/addons/addon-f/index.js''\<rparr>"
  by (simp add: probe_entries_def resolveBrowser_def resolveNode_def resolveFromExportsBrowser_def
      resolveFromExportsNode_def resolved_generic_def env_full_def startsWith_def)

lemma resolved_full:
  "resolved_generic env_full ''/repo/.storybook'' ''addon-f''
     = Some ''/repo/addons/addon-f/index.js''"
  "browserResolver env_full ''addon-f'' ''/repo/.storybook''
     = Some ''/repo/addons/addon-f/index.js''"
  "nodeResolver env_full ''addon-f'' ''/repo/.storybook'' = None"
  "readUpSync env_full (Some ''/repo/addons/addon-f/index.js'')
     = Some \<lparr>pkg_path = ''/repo/addons/addon-f/package.json'', pkg_exports = JUndefined\<rparr>"
  by (simp_all add: resolved_generic_def env_full_def)

lemma index_full_is_no_manager: "\<not> matches_manager ''/repo/addons/addon-f/index.js''"
  by code_simp

lemma preview_full_outside: "\<not> str_includes ''/repo/addons/addon-f/preview.js'' ''node_modules''"
  by code_simp

lemma all_full:
  "safeResolveAll_of env_full ''addon-f'' ''/repo/.storybook''
    = Some \<lparr>managerFile = Some ''/repo/addons/addon-f/manager.js'', registerFile = None,
      previewFile = Some ''/repo/addons/addon-f/preview.js'',
      previewFileAbsolute = Some ''/repo/addons/addon-f/preview.js'',
      presetFile = Some ''/repo/addons/addon-f/preset.js'',
      fallback = Some ''/repo/addons/addon-f/index.js''\<rparr>"
  by (simp add: safeResolveAll_of_def resolved_full probe_full)

lemma first_full:
  "resolveAddonName env_full ''/repo/.storybook'' ''addon-f'' (JObj [''a'' \<mapsto> JNum 1])
     = Some (Virtual ''addon-f'' (Some [''/repo/addons/addon-f/manager.js''])
         (Some [BareAbsolute ''/repo/addons/addon-f/preview.js''
                  ''/repo/addons/addon-f/preview.js''])
         (Some [(''/repo/addons/addon-f/preset.js'', JObj [''a'' \<mapsto> JNum 1])]))"
  by (simp add: resolveAddonName_def resolved_full index_full_is_no_manager probe_full
      compose_addon_def managerEntries_of_def previewAnnotations_of_def presets_of_def)

text \<open>The specifier that resolves to a preset file.\<close>

lemma resolved_direct_preset:
  "resolved_generic env_direct_preset ''/repo/.storybook'' ''addon-d/preset''
     = Some ''/nm/addon-d/preset.js''"
  "browserResolver env_direct_preset ''addon-d/preset'' ''/repo/.storybook'' = None"
  "nodeResolver env_direct_preset ''addon-d/preset'' ''/repo/.storybook''
     = Some ''/nm/addon-d/preset.js''"
  "readUpSync env_direct_preset (Some ''/nm/addon-d/preset.js'')
     = Some \<lparr>pkg_path = ''/nm/addon-d/package.json'', pkg_exports = JUndefined\<rparr>"
  by (simp_all add: resolved_generic_def env_direct_preset_def)

lemma probe_direct_preset:
  "probe_entries env_direct_preset ''/repo/.storybook'' ''addon-d/preset''
      \<lparr>pkg_path = ''/nm/addon-d/package.json'', pkg_exports = JUndefined\<rparr>
   = \<lparr>managerFile = None, registerFile = None, previewFile = None, previewFileAbsolute = None,
      presetFile = None, fallback = Some ''/nm/addon-d/preset.js''\<rparr>"
  by (simp add: probe_entries_def resolveBrowser_def resolveNode_def resolveFromExportsBrowser_def
      resolveFromExportsNode_def resolved_generic_def env_direct_preset_def startsWith_def)

lemma all_direct_preset:
  "safeResolveAll_of env_direct_preset ''addon-d/preset'' ''/repo/.storybook''
    = Some \<lparr>managerFile = None, registerFile = None, previewFile = None,
        previewFileAbsolute = None, presetFile = None,
        fallback = Some ''/nm/addon-d/preset.js''\<rparr>"
  by (simp add: safeResolveAll_of_def resolved_direct_preset probe_direct_preset)

lemma first_direct_preset:
  "resolveAddonName env_direct_preset ''/repo/.storybook'' ''addon-d/preset'' JUndefined
     = Some (Presets ''/nm/addon-d/preset.js'')"
  by (simp add: resolveAddonName_def resolved_direct_preset preset_is_preset)

theorem resolveAddonName_versions_agree_witness:
  "resolveAddonName env_full ''/repo/.storybook'' ''addon-f'' (JObj [''a'' \<mapsto> JNum 1])
     = resolveAddonName_2 (safeResolveAll_of env_full) after_node_modules
         ''/repo/.storybook'' ''addon-f'' (JObj [''a'' \<mapsto> JNum 1])
   \<and> resolveAddonName env_full ''/repo/.storybook'' ''addon-f'' (JObj [''a'' \<mapsto> JNum 1])
     = Some (Virtual ''addon-f'' (Some [''/repo/addons/addon-f/manager.js''])
         (Some [BareAbsolute ''/repo/addons/addon-f/preview.js''
                  ''/repo/addons/addon-f/preview.js''])
         (Some [(''/repo/addons/addon-f/preset.js'', JObj [''a'' \<mapsto> JNum 1])]))
   \<and> direct_preset env_direct_preset ''/repo/.storybook'' ''addon-d/preset''
   \<and> resolveAddonName env_direct_preset ''/repo/.storybook'' ''addon-d/preset'' JUndefined
     = resolveAddonName_2 (safeResolveAll_of env_direct_preset) after_node_modules
         ''/repo/.storybook'' ''addon-d/preset'' JUndefined
   \<and> resolveAddonName env_direct_preset ''/repo/.storybook'' ''addon-d/preset'' JUndefined
     = Some (Presets ''/nm/addon-d/preset.js'')"
proof -
  have full: "resolveAddonName env_full ''/repo/.storybook'' ''addon-f'' (JObj [''a'' \<mapsto> JNum 1])
     = resolveAddonName_2 (safeResolveAll_of env_full) after_node_modules
         ''/repo/.storybook'' ''addon-f'' (JObj [''a'' \<mapsto> JNum 1])"
    by (rule resolveAddonName_versions_agree
          [where env = env_full and safeResolveAll = "safeResolveAll_of env_full",
           OF refl, THEN iffD2])
      (simp add: direct_manager_def direct_preset_def all_full resolved_full
         index_full_is_no_manager preview_full_outside)
  have dp: "direct_preset env_direct_preset ''/repo/.storybook'' ''addon-d/preset''"
    by (simp add: direct_preset_def resolved_direct_preset preset_is_preset)
  have direct: "resolveAddonName env_direct_preset ''/repo/.storybook'' ''addon-d/preset'' JUndefined
     = resolveAddonName_2 (safeResolveAll_of env_direct_preset) after_node_modules
         ''/repo/.storybook'' ''addon-d/preset'' JUndefined"
    by (rule resolveAddonName_versions_agree
          [where env = env_direct_preset
             and safeResolveAll = "safeResolveAll_of env_direct_preset",
           OF refl, THEN iffD2])
      (simp add: direct_manager_def direct_preset_def all_direct_preset resolved_direct_preset
         preset_is_preset)
  show ?thesis
    using full dp direct by (simp only: first_full first_direct_preset simp_thms)
qed

text \<open>
  C2. The claim holds for the first version, which returns \<^verbatim>\<open>{ type: 'presets', name:
  presetFile }\<close> when the probe resolves the preset and neither the manager nor the preview.
  The second version has no such branch: for the package \<^verbatim>\<open>addon-p\<close>, of which
  \<^verbatim>\<open>safeResolveAll\<close> resolves the preset (and the main file as fallback) and nothing else,
  it returns a result of kind \<^verbatim>\<open>virtual\<close> that carries the preset in its \<^verbatim>\<open>presets\<close> list,
  where the first version, probing the same files, returns the result of kind \<^verbatim>\<open>presets\<close>.
\<close>

theorem resolveAddonName_2_preset_only_is_virtual:
  "resolveAddonName_2 (\<lambda>nm configDir. Some entries_preset_only) stripAbsNodeModulesPath
       ''/repo/.storybook'' ''addon-p'' JUndefined
     = Some (Virtual ''addon-p'' None None (Some [(''/nm/addon-p/preset.js'', JUndefined)]))
   \<and> probe_entries env_preset_only ''/repo/.storybook'' ''addon-p''
       \<lparr>pkg_path = ''/nm/addon-p/package.json'', pkg_exports = JUndefined\<rparr> = entries_preset_only
   \<and> resolveAddonName env_preset_only ''/repo/.storybook'' ''addon-p'' JUndefined
     = Some (Presets ''/nm/addon-p/preset.js'')"
  by (simp add: second_preset_only first_preset_only probe_preset_only)

text \<open>The first version on a probe that resolves the preset and neither the manager nor the
  preview, whenever it gets as far as the probe.\<close>

lemma resolveAddonName_preset_only_is_presets:
  assumes "\<not> (found (browserResolver env nm configDir)
            \<and> matches_manager (str (browserResolver env nm configDir)))"
    and "readUpSync env (resolved_generic env configDir nm) = Some p"
    and "found (presetFile (probe_entries env configDir nm p))"
    and "\<not> found (managerFile (probe_entries env configDir nm p))"
    and "\<not> found (previewFile (probe_entries env configDir nm p))"
  shows "\<exists>file. resolveAddonName env configDir nm opts = Some (Presets file)"
  using assms by (simp add: resolveAddonName_def Let_def compose_addon_def)

end
